theory Spec2Isabelle
  imports Complex_Main "HOL-Library.Word" "HOL-Library.Char_ord"
begin

unbundle bit_operations_syntax

section \<open>Shared library pieces: digests and hex encoding\<close>

text \<open>
  Go strings are byte strings, and \<open>len\<close> counts bytes; they are modelled as
  \<^typ>\<open>string\<close>. The result of \<open>sha256.Sum256\<close> has the Go type \<open>[32]byte\<close>; it is
  modelled as a 256-bit word read big-endian, so that its size is part of the type. The
  hash function itself belongs to the Go standard library and is a parameter
  \<open>Sum256\<close> of every definition that calls it.
\<close>

type_synonym byte = "8 word"
type_synonym digest = "256 word"

fun wordBytes :: "nat \<Rightarrow> digest \<Rightarrow> byte list" where
  "wordBytes 0 w = []"
| "wordBytes (Suc n) w = wordBytes n (drop_bit 8 w) @ [ucast w]"

definition digestBytes :: "digest \<Rightarrow> byte list" where
  "digestBytes h = wordBytes 32 h"

definition hextable :: string where
  "hextable = ''0123456789abcdef''"

definition hexByte :: "byte \<Rightarrow> string" where
  "hexByte b = [hextable ! unat (drop_bit 4 b), hextable ! unat (b AND 0x0f)]"

definition hex_EncodeToString :: "byte list \<Rightarrow> string" where
  "hex_EncodeToString bs = concat (map hexByte bs)"

section \<open>Finish reasons\<close>

datatype FinishReason =
    FinishReasonNone
  | FinishReasonUnspecified
  | FinishReasonStop
  | FinishReasonMaxTokens
  | FinishReasonSafety

text \<open>Chat-Completions adapter: \<open>convertFinishReason\<close>.\<close>

definition convertFinishReason :: "string \<Rightarrow> FinishReason" where
  "convertFinishReason reason =
     (if reason = ''stop'' \<or> reason = ''tool_calls'' \<or> reason = ''function_call''
        then FinishReasonStop
      else if reason = ''length'' then FinishReasonMaxTokens
      else if reason = ''content_filter'' then FinishReasonSafety
      else FinishReasonUnspecified)"

text \<open>
  Messages adapter: \<open>convertStopReason\<close>. The vendor SDK's \<open>StopReason\<close> is a string
  type; its constants have the wire values used here.
\<close>

definition StopReasonEndTurn :: string where "StopReasonEndTurn = ''end_turn''"
definition StopReasonMaxTokens :: string where "StopReasonMaxTokens = ''max_tokens''"
definition StopReasonStopSequence :: string where "StopReasonStopSequence = ''stop_sequence''"
definition StopReasonToolUse :: string where "StopReasonToolUse = ''tool_use''"

definition convertStopReason :: "string \<Rightarrow> FinishReason" where
  "convertStopReason reason =
     (if reason = StopReasonEndTurn then FinishReasonStop
      else if reason = StopReasonMaxTokens then FinishReasonMaxTokens
      else if reason = StopReasonStopSequence then FinishReasonStop
      else if reason = StopReasonToolUse then FinishReasonStop
      else FinishReasonUnspecified)"

text \<open>The single table of the specification, row by row.\<close>

definition finishReasonTable :: "string \<Rightarrow> FinishReason" where
  "finishReasonTable reason =
     (if reason \<in> set [''stop'', ''end_turn'', ''stop_sequence'', ''tool_calls'', ''tool_use'',
                        ''function_call'']
        then FinishReasonStop
      else if reason \<in> set [''length'', ''max_tokens''] then FinishReasonMaxTokens
      else if reason = ''content_filter'' then FinishReasonSafety
      else FinishReasonUnspecified)"

section \<open>Tool-call identifiers\<close>

subsection \<open>Length-limited policy (Chat-Completions adapter)\<close>

definition maxToolCallIDLength :: nat where
  "maxToolCallIDLength = 40"

record Model =
  modelName :: string
  toolCallIDMap :: "string \<rightharpoonup> string"

definition New :: "string \<Rightarrow> Model" where
  "New name = \<lparr>modelName = name, toolCallIDMap = Map.empty\<rparr>"

definition shortIDOf :: "(string \<Rightarrow> digest) \<Rightarrow> string \<Rightarrow> string" where
  "shortIDOf Sum256 tid =
     ''tc_'' @ take (maxToolCallIDLength - 3) (hex_EncodeToString (digestBytes (Sum256 tid)))"

definition normalizeToolCallID :: "(string \<Rightarrow> digest) \<Rightarrow> Model \<Rightarrow> string \<Rightarrow> string \<times> Model" where
  "normalizeToolCallID Sum256 m tid =
     (if length tid \<le> maxToolCallIDLength then (tid, m)
      else let shortID = shortIDOf Sum256 tid
           in (shortID, m\<lparr>toolCallIDMap := (toolCallIDMap m)(shortID \<mapsto> tid)\<rparr>))"

definition denormalizeToolCallID :: "Model \<Rightarrow> string \<Rightarrow> string" where
  "denormalizeToolCallID m shortID =
     (case toolCallIDMap m shortID of Some original \<Rightarrow> original | None \<Rightarrow> shortID)"

fun normalizeAll :: "(string \<Rightarrow> digest) \<Rightarrow> Model \<Rightarrow> string list \<Rightarrow> Model" where
  "normalizeAll Sum256 m [] = m"
| "normalizeAll Sum256 m (tid # tids) =
     normalizeAll Sum256 (snd (normalizeToolCallID Sum256 m tid)) tids"

subsection \<open>Charset-limited policy (Messages adapter)\<close>

definition isToolIDChar :: "char \<Rightarrow> bool" where
  "isToolIDChar c =
     ((CHR ''a'' \<le> c \<and> c \<le> CHR ''z'') \<or> (CHR ''A'' \<le> c \<and> c \<le> CHR ''Z'')
      \<or> (CHR ''0'' \<le> c \<and> c \<le> CHR ''9'') \<or> c = CHR ''_'' \<or> c = CHR ''-'')"

definition anthropicToolIDPattern :: "string \<Rightarrow> bool" where
  "anthropicToolIDPattern s = (s \<noteq> [] \<and> list_all isToolIDChar s)"

definition sanitizeToolID :: "(string \<Rightarrow> digest) \<Rightarrow> string \<Rightarrow> string" where
  "sanitizeToolID Sum256 tid =
     (if anthropicToolIDPattern tid then tid
      else ''toolu_'' @ hex_EncodeToString (take 16 (digestBytes (Sum256 tid))))"

section \<open>Go values, errors and library functions\<close>

text \<open>
  Schemas of the canonical model (\<open>genai.Schema\<close>). A \<open>*Schema\<close> that may be nil is a
  \<^typ>\<open>'a option\<close>; the \<open>Properties\<close> map is an association list with distinct keys.
  \<open>genai.Type\<close> is a string type; its constants have the values below.
\<close>

datatype Schema = Schema
  (schema_Type: string)
  (schema_Description: string)
  (schema_Required: "string list")
  (schema_Enum: "string list")
  (schema_Properties: "(string \<times> Schema option) list")
  (schema_Items: "Schema option")

definition TypeUnspecified :: string where "TypeUnspecified = ''TYPE_UNSPECIFIED''"
definition TypeString :: string where "TypeString = ''STRING''"
definition TypeNumber :: string where "TypeNumber = ''NUMBER''"
definition TypeInteger :: string where "TypeInteger = ''INTEGER''"
definition TypeBoolean :: string where "TypeBoolean = ''BOOLEAN''"
definition TypeArray :: string where "TypeArray = ''ARRAY''"
definition TypeObject :: string where "TypeObject = ''OBJECT''"

text \<open>
  A Go value of type \<open>any\<close>, by the cases the adapters tell apart with nil checks and type
  assertions: nil, a string, a \<open>[]string\<close>, a \<open>map[string]any\<close> (an association list
  with distinct keys; a nil map is the empty list), a \<open>json.RawMessage\<close>, a \<open>*Schema\<close>,
  and any other value.
\<close>

datatype goval =
    AnyNil
  | AnyString string
  | AnyStrings "string list"
  | AnyMap "(string \<times> goval) list"
  | AnyRawMessage string
  | AnySchema "Schema option"
  | AnyOther nat

type_synonym gomap = "(string \<times> goval) list"

datatype error =
    ErrNoChoicesInResponse
  | ErrNoContentInResponse
  | LibraryError string
  | Errorf string error

text \<open>
  The functions of the Go standard library that the adapters call. They are not part of
  the repository and are passed in as a record of parameters.
\<close>

record golib =
  sha256_Sum256 :: "string \<Rightarrow> digest"
  json_Marshal :: "goval \<Rightarrow> error + string"
  json_Unmarshal :: "string \<Rightarrow> error + gomap"
  base64_EncodeToString :: "byte list \<Rightarrow> string"

section \<open>Schema converter\<close>

definition schemaTypeToString :: "string \<Rightarrow> string" where
  "schemaTypeToString t =
     (case map_of [(TypeString, ''string''), (TypeNumber, ''number''),
                   (TypeInteger, ''integer''), (TypeBoolean, ''boolean''),
                   (TypeArray, ''array''), (TypeObject, ''object'')] t of
        Some s \<Rightarrow> s
      | None \<Rightarrow> ''string'')"

fun convertSchema :: "Schema option \<Rightarrow> error + gomap"
  and convertProperties :: "(string \<times> Schema option) list \<Rightarrow> error + gomap"
where
  "convertSchema None = Inr [(''type'', AnyString ''object''), (''properties'', AnyMap [])]"
| "convertSchema (Some (Schema t description required enum properties items)) =
     (let result = [];
          result = (if t \<noteq> TypeUnspecified
                    then result @ [(''type'', AnyString (schemaTypeToString t))] else result);
          result = (if description \<noteq> ''''
                    then result @ [(''description'', AnyString description)] else result);
          result = (if length required > 0
                    then result @ [(''required'', AnyStrings required)] else result);
          result = (if length enum > 0
                    then result @ [(''enum'', AnyStrings enum)] else result)
      in case (if length properties > 0
               then (case convertProperties properties of
                       Inl err \<Rightarrow> Inl err
                     | Inr props \<Rightarrow> Inr (result @ [(''properties'', AnyMap props)]))
               else Inr result) of
           Inl err \<Rightarrow> Inl err
         | Inr result \<Rightarrow>
             (case items of
                None \<Rightarrow> Inr result
              | Some its \<Rightarrow>
                  (case convertSchema (Some its) of
                     Inl err \<Rightarrow> Inl err
                   | Inr converted \<Rightarrow> Inr (result @ [(''items'', AnyMap converted)]))))"
| "convertProperties [] = Inr []"
| "convertProperties ((name, propSchema) # rest) =
     (case convertSchema propSchema of
        Inl err \<Rightarrow> Inl err
      | Inr converted \<Rightarrow>
          (case convertProperties rest of
             Inl err \<Rightarrow> Inl err
           | Inr props \<Rightarrow> Inr ((name, AnyMap converted) # props)))"

section \<open>Canonical content model\<close>

text \<open>
  The \<open>genai\<close> types the adapters read and build. \<open>genai.Part\<close> is a struct of optional
  fields, and is kept as one: an unset string is empty, an unset pointer is \<open>None\<close>.
\<close>

record Blob =
  blob_MIMEType :: string
  blob_Data :: "byte list"

record FunctionCall =
  fc_ID :: string
  fc_Name :: string
  fc_Args :: gomap

record FunctionResponse =
  fr_ID :: string
  fr_Name :: string
  fr_Response :: gomap

record Part =
  part_Text :: string
  part_InlineData :: "Blob option"
  part_FunctionCall :: "FunctionCall option"
  part_FunctionResponse :: "FunctionResponse option"

record Content =
  content_Role :: string
  content_Parts :: "Part list"

definition RoleModel :: string where "RoleModel = ''model''"

definition textPart :: "string \<Rightarrow> Part" where
  "textPart t = \<lparr>part_Text = t, part_InlineData = None, part_FunctionCall = None,
                 part_FunctionResponse = None\<rparr>"

definition functionCallPart :: "FunctionCall \<Rightarrow> Part" where
  "functionCallPart fc = \<lparr>part_Text = '''', part_InlineData = None,
                          part_FunctionCall = Some fc, part_FunctionResponse = None\<rparr>"

record UsageMetadata =
  PromptTokenCount :: "32 word"
  CandidatesTokenCount :: "32 word"
  TotalTokenCount :: "32 word"

record LLMResponse =
  resp_Content :: Content
  resp_UsageMetadata :: "UsageMetadata option"
  resp_FinishReason :: FinishReason
  resp_Partial :: bool
  resp_TurnComplete :: bool

record FunctionDeclaration =
  fd_Name :: string
  fd_Description :: string
  fd_ParametersJsonSchema :: goval
  fd_Parameters :: "Schema option"

record Tool =
  tool_FunctionDeclarations :: "FunctionDeclaration list"

record GenerateContentConfig =
  cfg_SystemInstruction :: "Content option"
  cfg_Temperature :: "real option"
  cfg_TopP :: "real option"
  cfg_MaxOutputTokens :: "32 word"
  cfg_StopSequences :: "string list"
  cfg_ResponseMIMEType :: string
  cfg_ResponseSchema :: "Schema option"
  cfg_ThinkingConfig :: "string option"
  cfg_Tools :: "Tool option list"

record LLMRequest =
  req_Contents :: "Content list"
  req_Config :: "GenerateContentConfig option"

text \<open>
  What an \<open>iter.Seq2[*LLMResponse, error]\<close> hands to its consumer: pairs of an optional
  response and an optional error. The consumer's \<open>yield\<close> sees the items delivered so
  far, the current one last, and answers whether it wants more.
\<close>

type_synonym item = "LLMResponse option \<times> error option"
type_synonym yield = "item list \<Rightarrow> bool"

definition partialResponse :: "string \<Rightarrow> LLMResponse" where
  "partialResponse text =
     \<lparr>resp_Content = \<lparr>content_Role = RoleModel, content_Parts = [textPart text]\<rparr>,
      resp_UsageMetadata = None, resp_FinishReason = FinishReasonNone,
      resp_Partial = True, resp_TurnComplete = False\<rparr>"

section \<open>Messages adapter\<close>

subsection \<open>Vendor types\<close>

datatype MessageParamRole = MessageParamRoleUser | MessageParamRoleAssistant

text \<open>
  \<open>ContentBlockParamUnion\<close>: the adapter builds blocks with exactly one variant set.
  Text; image (media type, base64 data); tool use (ID, name, raw JSON input); tool
  result (tool-use ID, content, error flag).
\<close>

datatype ContentBlockParam =
    OfText string
  | OfImage string string
  | OfToolUse string string string
  | OfToolResult string string bool

record MessageParam =
  msg_Role :: MessageParamRole
  msg_Content :: "ContentBlockParam list"

record ToolInputSchemaParam =
  is_Type :: string
  is_Properties :: goval
  is_Required :: "string list"

record ToolParam =
  tp_Name :: string
  tp_Description :: string
  tp_InputSchema :: ToolInputSchemaParam

record MessageNewParams =
  params_Model :: string
  params_MaxTokens :: "64 word"
  params_System :: "string list"
  params_Messages :: "MessageParam list"
  params_Temperature :: "real option"
  params_TopP :: "real option"
  params_StopSequences :: "string list"
  params_Tools :: "ToolParam list"

datatype ContentBlock =
    TextBlock string
  | ToolUseBlock string string goval
  | OtherBlock

record Usage =
  usage_InputTokens :: "64 word"
  usage_OutputTokens :: "64 word"

record Message =
  message_Content :: "ContentBlock list"
  message_StopReason :: string
  message_Usage :: Usage

datatype Delta = TextDelta string | InputJSONDelta string | OtherDelta

datatype MessageStreamEvent =
    MessageStartEvent Message
  | ContentBlockStartEvent nat ContentBlock
  | ContentBlockDeltaEvent nat Delta
  | ContentBlockStopEvent nat
  | MessageDeltaEvent string Usage
  | MessageStopEvent

text \<open>
  The vendor SDK, as parameters: the two network calls (a streaming call delivers the
  events it received and then the transport's error, if any) and the SDK's accumulation
  of stream events into a message.
\<close>

record anthropicSDK =
  Messages_New :: "MessageNewParams \<Rightarrow> error + Message"
  Messages_NewStreaming :: "MessageNewParams \<Rightarrow> MessageStreamEvent list \<times> error option"
  Message_Accumulate :: "Message \<Rightarrow> MessageStreamEvent \<Rightarrow> error + Message"

record AnthropicModel =
  a_modelName :: string

subsection \<open>History repair\<close>

fun extractToolUseIDs_blocks :: "ContentBlockParam list \<Rightarrow> string list" where
  "extractToolUseIDs_blocks [] = []"
| "extractToolUseIDs_blocks (OfToolUse tid name input # blocks) =
     tid # extractToolUseIDs_blocks blocks"
| "extractToolUseIDs_blocks (block # blocks) = extractToolUseIDs_blocks blocks"

definition extractToolUseIDs :: "MessageParam \<Rightarrow> string list" where
  "extractToolUseIDs msg = extractToolUseIDs_blocks (msg_Content msg)"

fun extractToolResultIDs_blocks :: "ContentBlockParam list \<Rightarrow> string list" where
  "extractToolResultIDs_blocks [] = []"
| "extractToolResultIDs_blocks (OfToolResult tid content isError # blocks) =
     tid # extractToolResultIDs_blocks blocks"
| "extractToolResultIDs_blocks (block # blocks) = extractToolResultIDs_blocks blocks"

definition extractToolResultIDs :: "MessageParam \<Rightarrow> string list" where
  "extractToolResultIDs msg = extractToolResultIDs_blocks (msg_Content msg)"

text \<open>
  \<open>allowedIDs\<close> is a \<open>map[string]bool\<close> that may be nil: \<open>None\<close> is the nil map, and a
  key that is absent reads as \<open>false\<close>.
\<close>

definition lookupBool :: "(string \<rightharpoonup> bool) \<Rightarrow> string \<Rightarrow> bool" where
  "lookupBool m k = (case m k of Some b \<Rightarrow> b | None \<Rightarrow> False)"

fun filterToolUse_blocks ::
  "(string \<rightharpoonup> bool) option \<Rightarrow> ContentBlockParam list \<Rightarrow> ContentBlockParam list" where
  "filterToolUse_blocks allowedIDs [] = []"
| "filterToolUse_blocks allowedIDs (OfToolUse tid name input # blocks) =
     (if allowedIDs \<noteq> None \<and> lookupBool (the allowedIDs) tid
      then OfToolUse tid name input # filterToolUse_blocks allowedIDs blocks
      else filterToolUse_blocks allowedIDs blocks)"
| "filterToolUse_blocks allowedIDs (block # blocks) =
     block # filterToolUse_blocks allowedIDs blocks"

definition filterToolUse :: "MessageParam \<Rightarrow> (string \<rightharpoonup> bool) option \<Rightarrow> MessageParam" where
  "filterToolUse msg allowedIDs =
     \<lparr>msg_Role = msg_Role msg, msg_Content = filterToolUse_blocks allowedIDs (msg_Content msg)\<rparr>"

definition hasContent :: "MessageParam \<Rightarrow> bool" where
  "hasContent msg = (length (msg_Content msg) > 0)"

fun matchedIDsOf :: "string list \<Rightarrow> (string \<rightharpoonup> bool)" where
  "matchedIDsOf [] = Map.empty"
| "matchedIDsOf (tid # tids) = (\<lambda>k. if k = tid then Some True else matchedIDsOf tids k)"

text \<open>
  The loop of \<open>repairMessageHistory\<close> reads \<open>messages[i]\<close> and \<open>messages[i+1]\<close> of the
  input and appends to \<open>result\<close>; as a recursion, the head of the list is \<open>messages[i]\<close>
  and the head of the rest is \<open>messages[i+1]\<close>.
\<close>

fun repairMessageHistory :: "MessageParam list \<Rightarrow> MessageParam list" where
  "repairMessageHistory [] = []"
| "repairMessageHistory (msg # messages) =
     (if msg_Role msg = MessageParamRoleAssistant \<and> length (extractToolUseIDs msg) > 0
      then
        (if messages \<noteq> [] \<and> msg_Role (hd messages) = MessageParamRoleUser
         then
           (let toolResultIDs = extractToolResultIDs (hd messages);
                matchedIDs = matchedIDsOf toolResultIDs;
                filteredMsg = filterToolUse msg (Some matchedIDs)
            in (if hasContent filteredMsg then [filteredMsg] else [])
               @ repairMessageHistory messages)
         else
           (let filteredMsg = filterToolUse msg None
            in (if hasContent filteredMsg then [filteredMsg] else [])
               @ repairMessageHistory messages))
      else msg # repairMessageHistory messages)"

text \<open>
  Pairing, as the protocol asks for it: the tool-use IDs of a message are among the
  tool-result IDs of the message that follows it. \<open>toolUsePaired\<close> asks it of every
  message, \<open>assistantToolUsePaired\<close> of the assistant messages only, and there the next
  message has to be a user message.
\<close>

fun toolUsePaired :: "MessageParam list \<Rightarrow> bool" where
  "toolUsePaired [] = True"
| "toolUsePaired (msg # messages) =
     (list_all (\<lambda>tid. messages \<noteq> [] \<and> tid \<in> set (extractToolResultIDs (hd messages)))
        (extractToolUseIDs msg)
      \<and> toolUsePaired messages)"

fun assistantToolUsePaired :: "MessageParam list \<Rightarrow> bool" where
  "assistantToolUsePaired [] = True"
| "assistantToolUsePaired (msg # messages) =
     ((msg_Role msg \<noteq> MessageParamRoleAssistant
       \<or> list_all (\<lambda>tid. messages \<noteq> [] \<and> msg_Role (hd messages) = MessageParamRoleUser
                          \<and> tid \<in> set (extractToolResultIDs (hd messages)))
            (extractToolUseIDs msg))
      \<and> assistantToolUsePaired messages)"

subsection \<open>Request builder\<close>

fun strings_Join :: "string list \<Rightarrow> string \<Rightarrow> string" where
  "strings_Join [] sep = ''''"
| "strings_Join [t] sep = t"
| "strings_Join (t # ts) sep = t @ sep @ strings_Join ts sep"

definition joinTexts :: "string list \<Rightarrow> string" where
  "joinTexts texts = strings_Join texts [CHR 0x0A]"

definition nonEmptyTexts :: "Part list \<Rightarrow> string list" where
  "nonEmptyTexts parts = filter (\<lambda>t. t \<noteq> '''') (map part_Text parts)"

definition extractTextFromContent :: "Content option \<Rightarrow> string" where
  "extractTextFromContent content =
     (case content of
        None \<Rightarrow> ''''
      | Some c \<Rightarrow> strings_Join (nonEmptyTexts (content_Parts c)) [CHR 0x0A])"

definition convertRoleToAnthropic :: "string \<Rightarrow> MessageParamRole" where
  "convertRoleToAnthropic role =
     (if role = ''user'' then MessageParamRoleUser
      else if role = ''model'' then MessageParamRoleAssistant
      else MessageParamRoleUser)"

definition emptyJSONObject :: string where
  "emptyJSONObject = ''{}''"

definition convertToolInputToRaw :: "golib \<Rightarrow> goval \<Rightarrow> string" where
  "convertToolInputToRaw L input =
     (if input = AnyNil then emptyJSONObject
      else case (case input of
                   AnyRawMessage raw \<Rightarrow> if length raw > 0 then Some raw else None
                 | _ \<Rightarrow> None) of
             Some raw \<Rightarrow> raw
           | None \<Rightarrow>
               (case json_Marshal L input of
                  Inl err \<Rightarrow> emptyJSONObject
                | Inr data \<Rightarrow>
                    if length data = 0 \<or> data = ''null'' then emptyJSONObject else data))"

definition convertToolInput :: "golib \<Rightarrow> goval \<Rightarrow> gomap" where
  "convertToolInput L input =
     (case input of
        AnyNil \<Rightarrow> []
      | AnyMap m \<Rightarrow> m
      | _ \<Rightarrow>
          (case (case input of
                   AnyRawMessage raw \<Rightarrow> Inr raw
                 | _ \<Rightarrow> json_Marshal L input) of
             Inl err \<Rightarrow> []
           | Inr data \<Rightarrow>
               (case json_Unmarshal L data of
                  Inl err \<Rightarrow> []
                | Inr result \<Rightarrow> result)))"

definition supportedImageTypes :: "string list" where
  "supportedImageTypes = [''image/jpg'', ''image/jpeg'', ''image/png'', ''image/gif'', ''image/webp'']"

text \<open>The loop of \<open>convertContentToMessage\<close> over the parts, \<open>blocks\<close> being its accumulator.\<close>

fun convertContentBlocks ::
  "golib \<Rightarrow> ContentBlockParam list \<Rightarrow> Part list \<Rightarrow> error + ContentBlockParam list" where
  "convertContentBlocks L blocks [] = Inr blocks"
| "convertContentBlocks L blocks (part # parts) =
     (let blocks = (if part_Text part \<noteq> '''' then blocks @ [OfText (part_Text part)]
                    else blocks);
          blocks = (case part_InlineData part of
                      None \<Rightarrow> blocks
                    | Some inlineData \<Rightarrow>
                        if blob_MIMEType inlineData \<in> set supportedImageTypes
                        then blocks @ [OfImage (blob_MIMEType inlineData)
                                         (base64_EncodeToString L (blob_Data inlineData))]
                        else blocks);
          blocks = (case part_FunctionCall part of
                      None \<Rightarrow> blocks
                    | Some fc \<Rightarrow>
                        blocks @ [OfToolUse (sanitizeToolID (sha256_Sum256 L) (fc_ID fc))
                                    (fc_Name fc)
                                    (convertToolInputToRaw L (AnyMap (fc_Args fc)))])
      in case part_FunctionResponse part of
           None \<Rightarrow> convertContentBlocks L blocks parts
         | Some fr \<Rightarrow>
             (case json_Marshal L (AnyMap (fr_Response fr)) of
                Inl err \<Rightarrow> Inl (Errorf ''failed to marshal function response: %w'' err)
              | Inr responseJSON \<Rightarrow>
                  convertContentBlocks L
                    (blocks @ [OfToolResult (sanitizeToolID (sha256_Sum256 L) (fr_ID fr))
                                 responseJSON False])
                    parts))"

definition convertContentToMessage :: "golib \<Rightarrow> Content \<Rightarrow> error + MessageParam option" where
  "convertContentToMessage L content =
     (let role = convertRoleToAnthropic (content_Role content)
      in case convertContentBlocks L [] (content_Parts content) of
           Inl err \<Rightarrow> Inl err
         | Inr blocks \<Rightarrow>
             if length blocks = 0 then Inr None
             else Inr (Some \<lparr>msg_Role = role, msg_Content = blocks\<rparr>))"

definition toolParamOf :: "FunctionDeclaration \<Rightarrow> ToolParam" where
  "toolParamOf funcDecl =
     (let params = fd_ParametersJsonSchema funcDecl;
          params = (if params = AnyNil then AnySchema (fd_Parameters funcDecl) else params);
          inputSchema = \<lparr>is_Type = ''object'', is_Properties = AnyNil, is_Required = []\<rparr>;
          inputSchema =
            (case params of
               AnyMap m \<Rightarrow>
                 (let inputSchema =
                        (case map_of m ''properties'' of
                           Some props \<Rightarrow> inputSchema\<lparr>is_Properties := props\<rparr>
                         | None \<Rightarrow> inputSchema)
                  in case map_of m ''required'' of
                       Some (AnyStrings req) \<Rightarrow> inputSchema\<lparr>is_Required := req\<rparr>
                     | _ \<Rightarrow> inputSchema)
             | _ \<Rightarrow> inputSchema)
      in \<lparr>tp_Name = fd_Name funcDecl, tp_Description = fd_Description funcDecl,
          tp_InputSchema = inputSchema\<rparr>)"

fun anthropic_convertTools :: "Tool option list \<Rightarrow> error + ToolParam list" where
  "anthropic_convertTools [] = Inr []"
| "anthropic_convertTools (None # genaiTools) = anthropic_convertTools genaiTools"
| "anthropic_convertTools (Some genaiTool # genaiTools) =
     (case anthropic_convertTools genaiTools of
        Inl err \<Rightarrow> Inl err
      | Inr tools \<Rightarrow> Inr (map toolParamOf (tool_FunctionDeclarations genaiTool) @ tools))"

text \<open>The loop of \<open>buildMessageParams\<close> over \<open>req.Contents\<close>.\<close>

fun convertContents :: "golib \<Rightarrow> MessageParam list \<Rightarrow> Content list \<Rightarrow> error + MessageParam list" where
  "convertContents L messages [] = Inr messages"
| "convertContents L messages (content # contents) =
     (case convertContentToMessage L content of
        Inl err \<Rightarrow> Inl err
      | Inr None \<Rightarrow> convertContents L messages contents
      | Inr (Some msg) \<Rightarrow> convertContents L (messages @ [msg]) contents)"

definition buildMessageParams ::
  "golib \<Rightarrow> AnthropicModel \<Rightarrow> LLMRequest \<Rightarrow> error + MessageNewParams" where
  "buildMessageParams L m req =
     (let maxTokens = (4096 :: 64 word);
          maxTokens = (case req_Config req of
                         None \<Rightarrow> maxTokens
                       | Some cfg \<Rightarrow>
                           if 0 <s cfg_MaxOutputTokens cfg
                           then scast (cfg_MaxOutputTokens cfg) else maxTokens);
          params = \<lparr>params_Model = a_modelName m, params_MaxTokens = maxTokens,
                    params_System = [], params_Messages = [], params_Temperature = None,
                    params_TopP = None, params_StopSequences = [], params_Tools = []\<rparr>;
          params = (case req_Config req of
                      None \<Rightarrow> params
                    | Some cfg \<Rightarrow>
                        (case cfg_SystemInstruction cfg of
                           None \<Rightarrow> params
                         | Some si \<Rightarrow>
                             (let systemText = extractTextFromContent (Some si)
                              in if systemText \<noteq> ''''
                                 then params\<lparr>params_System := [systemText]\<rparr>
                                 else params)))
      in case convertContents L [] (req_Contents req) of
           Inl err \<Rightarrow> Inl err
         | Inr messages \<Rightarrow>
             (let messages = repairMessageHistory messages;
                  params = params\<lparr>params_Messages := messages\<rparr>
              in case req_Config req of
                   None \<Rightarrow> Inr params
                 | Some cfg \<Rightarrow>
                     (let params = (case cfg_Temperature cfg of
                                      None \<Rightarrow> params
                                    | Some t \<Rightarrow> params\<lparr>params_Temperature := Some t\<rparr>);
                          params = (case cfg_TopP cfg of
                                      None \<Rightarrow> params
                                    | Some p \<Rightarrow> params\<lparr>params_TopP := Some p\<rparr>);
                          params = (if length (cfg_StopSequences cfg) > 0
                                    then params\<lparr>params_StopSequences := cfg_StopSequences cfg\<rparr>
                                    else params)
                      in if length (cfg_Tools cfg) > 0
                         then (case anthropic_convertTools (cfg_Tools cfg) of
                                 Inl err \<Rightarrow> Inl err
                               | Inr tools \<Rightarrow> Inr (params\<lparr>params_Tools := tools\<rparr>))
                         else Inr params)))"

subsection \<open>Response converter and stream aggregator\<close>

fun convertBlocks :: "golib \<Rightarrow> ContentBlock list \<Rightarrow> Part list" where
  "convertBlocks L [] = []"
| "convertBlocks L (TextBlock text # blocks) = textPart text # convertBlocks L blocks"
| "convertBlocks L (ToolUseBlock tid name input # blocks) =
     functionCallPart \<lparr>fc_ID = tid, fc_Name = name, fc_Args = convertToolInput L input\<rparr>
       # convertBlocks L blocks"
| "convertBlocks L (OtherBlock # blocks) = convertBlocks L blocks"

definition anthropic_convertResponse :: "golib \<Rightarrow> Message \<Rightarrow> error + LLMResponse" where
  "anthropic_convertResponse L resp =
     (let content = \<lparr>content_Role = RoleModel,
                     content_Parts = convertBlocks L (message_Content resp)\<rparr>;
          usage = message_Usage resp;
          usageMetadata =
            (if 0 <s usage_InputTokens usage \<or> 0 <s usage_OutputTokens usage
             then Some \<lparr>PromptTokenCount = ucast (usage_InputTokens usage),
                        CandidatesTokenCount = ucast (usage_OutputTokens usage),
                        TotalTokenCount =
                          ucast (usage_InputTokens usage + usage_OutputTokens usage)\<rparr>
             else None)
      in Inr \<lparr>resp_Content = content, resp_UsageMetadata = usageMetadata,
              resp_FinishReason = convertStopReason (message_StopReason resp),
              resp_Partial = False, resp_TurnComplete = True\<rparr>)"

definition emptyMessage :: Message where
  "emptyMessage = \<lparr>message_Content = [], message_StopReason = '''',
                    message_Usage = \<lparr>usage_InputTokens = 0, usage_OutputTokens = 0\<rparr>\<rparr>"

definition anthropic_generate ::
  "golib \<Rightarrow> anthropicSDK \<Rightarrow> AnthropicModel \<Rightarrow> LLMRequest \<Rightarrow> item list" where
  "anthropic_generate L A m req =
     (case buildMessageParams L m req of
        Inl err \<Rightarrow> [(None, Some err)]
      | Inr params \<Rightarrow>
          (case Messages_New A params of
             Inl err \<Rightarrow> [(None, Some err)]
           | Inr resp \<Rightarrow>
               (case anthropic_convertResponse L resp of
                  Inl err \<Rightarrow> [(None, Some err)]
                | Inr llmResp \<Rightarrow> [(Some llmResp, None)])))"

text \<open>
  The \<open>for stream.Next()\<close> loop. It returns the items handed to \<open>yield\<close> so far and
  the accumulated message; the message is \<open>None\<close> when the function has returned from
  inside the loop.
\<close>

fun anthropic_streamLoop ::
  "anthropicSDK \<Rightarrow> yield \<Rightarrow> Message \<Rightarrow> item list \<Rightarrow> MessageStreamEvent list
   \<Rightarrow> item list \<times> Message option" where
  "anthropic_streamLoop A yield message out [] = (out, Some message)"
| "anthropic_streamLoop A yield message out (event # events) =
     (case Message_Accumulate A message event of
        Inl err \<Rightarrow> (out @ [(None, Some err)], None)
      | Inr message \<Rightarrow>
          (case event of
             ContentBlockDeltaEvent index (TextDelta text) \<Rightarrow>
               if text \<noteq> ''''
               then (let out = out @ [(Some (partialResponse text), None)]
                     in if \<not> yield out then (out, None)
                        else anthropic_streamLoop A yield message out events)
               else anthropic_streamLoop A yield message out events
           | _ \<Rightarrow> anthropic_streamLoop A yield message out events))"

definition anthropic_generateStream ::
  "golib \<Rightarrow> anthropicSDK \<Rightarrow> AnthropicModel \<Rightarrow> LLMRequest \<Rightarrow> yield \<Rightarrow> item list" where
  "anthropic_generateStream L A m req yield =
     (case buildMessageParams L m req of
        Inl err \<Rightarrow> [(None, Some err)]
      | Inr params \<Rightarrow>
          (case Messages_NewStreaming A params of
             (events, streamErr) \<Rightarrow>
               (case anthropic_streamLoop A yield emptyMessage [] events of
                  (out, None) \<Rightarrow> out
                | (out, Some message) \<Rightarrow>
                    (case streamErr of
                       Some err \<Rightarrow> out @ [(None, Some err)]
                     | None \<Rightarrow>
                         (case anthropic_convertResponse L message of
                            Inl err \<Rightarrow> out @ [(None, Some err)]
                          | Inr llmResp \<Rightarrow>
                              out @ [(Some (llmResp\<lparr>resp_Partial := False,
                                                    resp_TurnComplete := True\<rparr>), None)])))))"

section \<open>Chat-Completions adapter\<close>

subsection \<open>Vendor types\<close>

record ToolCall =
  tc_ID :: string
  tc_Function_Name :: string
  tc_Function_Arguments :: string

record ChatCompletionMessage =
  cm_Content :: string
  cm_ToolCalls :: "ToolCall list"

record Choice =
  choice_Index :: nat
  choice_Message :: ChatCompletionMessage
  choice_FinishReason :: string

record CompletionUsage =
  cu_PromptTokens :: "64 word"
  cu_CompletionTokens :: "64 word"
  cu_TotalTokens :: "64 word"

record ChatCompletion =
  cc_ID :: string
  cc_Choices :: "Choice list"
  cc_Usage :: CompletionUsage

record ToolCallDelta =
  tcd_Index :: nat
  tcd_ID :: string
  tcd_Function_Name :: string
  tcd_Function_Arguments :: string

record ChunkDelta =
  delta_Content :: string
  delta_ToolCalls :: "ToolCallDelta list"

record ChunkChoice =
  cchoice_Index :: nat
  cchoice_Delta :: ChunkDelta
  cchoice_FinishReason :: string

record ChatCompletionChunk =
  chunk_ID :: string
  chunk_Choices :: "ChunkChoice list"
  chunk_Usage :: CompletionUsage

datatype ContentPartParam = OfTextPart string | OfImageURL string string

record ToolCallParam =
  tcp_ID :: string
  tcp_Function_Name :: string
  tcp_Function_Arguments :: string

datatype ChatCompletionMessageParam =
    SystemMessage string
  | UserMessage string
  | UserPartsMessage "ContentPartParam list"
  | AssistantMessage "string option" "ToolCallParam list"
  | ToolMessage string string

datatype StopParam = OfString string | OfStringArray "string list"

datatype ResponseFormatParam = OfJSONObject | OfJSONSchema string string gomap bool

record FunctionDefinitionParam =
  fdp_Name :: string
  fdp_Description :: string
  fdp_Parameters :: "gomap option"

record ChatCompletionNewParams =
  cparams_Model :: string
  cparams_Messages :: "ChatCompletionMessageParam list"
  cparams_Temperature :: "real option"
  cparams_MaxTokens :: "64 word option"
  cparams_TopP :: "real option"
  cparams_Stop :: "StopParam option"
  cparams_ReasoningEffort :: "string option"
  cparams_ResponseFormat :: "ResponseFormatParam option"
  cparams_Tools :: "FunctionDefinitionParam list"

text \<open>
  The vendor SDK, as parameters: the two network calls (a streaming call delivers the
  chunks it received and then the transport's error, if any) and the accumulator's
  \<open>AddChunk\<close>, whose state is the chat completion accumulated so far.
\<close>

record openaiSDK =
  Completions_New :: "ChatCompletionNewParams \<Rightarrow> error + ChatCompletion"
  Completions_NewStreaming ::
    "ChatCompletionNewParams \<Rightarrow> ChatCompletionChunk list \<times> error option"
  Accumulator_AddChunk :: "ChatCompletion \<Rightarrow> ChatCompletionChunk \<Rightarrow> ChatCompletion"

definition emptyAccumulator :: ChatCompletion where
  "emptyAccumulator =
     \<lparr>cc_ID = '''', cc_Choices = [],
      cc_Usage = \<lparr>cu_PromptTokens = 0, cu_CompletionTokens = 0, cu_TotalTokens = 0\<rparr>\<rparr>"

subsection \<open>Request builder\<close>

definition convertRole :: "string \<Rightarrow> string" where
  "convertRole role = (if role = ''model'' then ''assistant'' else role)"

definition extractText :: "Content option \<Rightarrow> string" where
  "extractText content =
     (case content of
        None \<Rightarrow> ''''
      | Some c \<Rightarrow> joinTexts (nonEmptyTexts (content_Parts c)))"

definition convertInlineDataToImage :: "golib \<Rightarrow> Blob \<Rightarrow> ContentPartParam option" where
  "convertInlineDataToImage L data =
     (if blob_MIMEType data \<notin> set supportedImageTypes then None
      else Some (OfImageURL
                   (''data:'' @ blob_MIMEType data @ '';base64,''
                      @ base64_EncodeToString L (blob_Data data))
                   ''auto''))"

definition buildUserMessage ::
  "string list \<Rightarrow> ContentPartParam list \<Rightarrow> ChatCompletionMessageParam option" where
  "buildUserMessage texts images =
     (if length images = 0 then Some (UserMessage (joinTexts texts))
      else Some (UserPartsMessage (map OfTextPart texts @ images)))"

definition buildAssistantMessage ::
  "string list \<Rightarrow> ToolCallParam list \<Rightarrow> ChatCompletionMessageParam option" where
  "buildAssistantMessage texts toolCalls =
     Some (AssistantMessage (if length texts > 0 then Some (joinTexts texts) else None)
             (if length toolCalls > 0 then toolCalls else []))"

definition buildRoleMessage ::
  "string \<Rightarrow> string list \<Rightarrow> ContentPartParam list \<Rightarrow> ToolCallParam list
   \<Rightarrow> ChatCompletionMessageParam option" where
  "buildRoleMessage role texts images toolCalls =
     (let r = convertRole role
      in if r = ''user'' then buildUserMessage texts images
         else if r = ''assistant'' then buildAssistantMessage texts toolCalls
         else if r = ''system'' then Some (SystemMessage (joinTexts texts))
         else None)"

record partsState =
  ps_messages :: "ChatCompletionMessageParam list"
  ps_textParts :: "string list"
  ps_toolCalls :: "ToolCallParam list"
  ps_imageParts :: "ContentPartParam list"

text \<open>
  The loop of \<open>convertContentToMessages\<close> over the parts. The adapter instance is
  threaded through, since \<open>normalizeToolCallID\<close> writes to its table; it is returned
  also when the loop fails, as the table keeps what was written before the failure.
\<close>

fun convertPartsLoop ::
  "golib \<Rightarrow> Model \<Rightarrow> partsState \<Rightarrow> Part list \<Rightarrow> (error + partsState) \<times> Model" where
  "convertPartsLoop L m st [] = (Inr st, m)"
| "convertPartsLoop L m st (part # parts) =
     (case part_FunctionResponse part of
        Some fr \<Rightarrow>
          (case json_Marshal L (AnyMap (fr_Response fr)) of
             Inl err \<Rightarrow> (Inl (Errorf ''failed to marshal function response: %w'' err), m)
           | Inr responseJSON \<Rightarrow>
               (case normalizeToolCallID (sha256_Sum256 L) m (fr_ID fr) of
                  (normalizedID, m) \<Rightarrow>
                    convertPartsLoop L m
                      (st\<lparr>ps_messages := ps_messages st @ [ToolMessage responseJSON normalizedID]\<rparr>)
                      parts))
      | None \<Rightarrow>
          (case part_FunctionCall part of
             Some fc \<Rightarrow>
               (case json_Marshal L (AnyMap (fc_Args fc)) of
                  Inl err \<Rightarrow> (Inl (Errorf ''failed to marshal function args: %w'' err), m)
                | Inr argsJSON \<Rightarrow>
                    (case normalizeToolCallID (sha256_Sum256 L) m (fc_ID fc) of
                       (normalizedID, m) \<Rightarrow>
                         convertPartsLoop L m
                           (st\<lparr>ps_toolCalls := ps_toolCalls st @
                                  [\<lparr>tcp_ID = normalizedID, tcp_Function_Name = fc_Name fc,
                                    tcp_Function_Arguments = argsJSON\<rparr>]\<rparr>)
                           parts))
           | None \<Rightarrow>
               if part_Text part \<noteq> ''''
               then convertPartsLoop L m
                      (st\<lparr>ps_textParts := ps_textParts st @ [part_Text part]\<rparr>) parts
               else (case part_InlineData part of
                       Some inlineData \<Rightarrow>
                         (case convertInlineDataToImage L inlineData of
                            Some img \<Rightarrow>
                              convertPartsLoop L m
                                (st\<lparr>ps_imageParts := ps_imageParts st @ [img]\<rparr>) parts
                          | None \<Rightarrow> convertPartsLoop L m st parts)
                     | None \<Rightarrow> convertPartsLoop L m st parts)))"

definition convertContentToMessages ::
  "golib \<Rightarrow> Model \<Rightarrow> Content \<Rightarrow> (error + ChatCompletionMessageParam list) \<times> Model" where
  "convertContentToMessages L m content =
     (case convertPartsLoop L m
             \<lparr>ps_messages = [], ps_textParts = [], ps_toolCalls = [], ps_imageParts = []\<rparr>
             (content_Parts content) of
        (Inl err, m) \<Rightarrow> (Inl err, m)
      | (Inr st, m) \<Rightarrow>
          if length (ps_textParts st) > 0 \<or> length (ps_imageParts st) > 0
             \<or> length (ps_toolCalls st) > 0
          then (case buildRoleMessage (content_Role content) (ps_textParts st)
                       (ps_imageParts st) (ps_toolCalls st) of
                  Some msg \<Rightarrow> (Inr (ps_messages st @ [msg]), m)
                | None \<Rightarrow> (Inr (ps_messages st), m))
          else (Inr (ps_messages st), m))"

definition convertToFunctionParams :: "golib \<Rightarrow> goval \<Rightarrow> gomap option" where
  "convertToFunctionParams L params =
     (case params of
        AnyNil \<Rightarrow> None
      | AnyMap m \<Rightarrow> Some m
      | _ \<Rightarrow>
          (case json_Marshal L params of
             Inl err \<Rightarrow> None
           | Inr jsonBytes \<Rightarrow>
               (case json_Unmarshal L jsonBytes of
                  Inr m \<Rightarrow> Some m
                | Inl err \<Rightarrow> None)))"

definition functionToolOf :: "golib \<Rightarrow> FunctionDeclaration \<Rightarrow> FunctionDefinitionParam" where
  "functionToolOf L funcDecl =
     (let params = fd_ParametersJsonSchema funcDecl;
          params = (if params = AnyNil then AnySchema (fd_Parameters funcDecl) else params)
      in \<lparr>fdp_Name = fd_Name funcDecl, fdp_Description = fd_Description funcDecl,
          fdp_Parameters = convertToFunctionParams L params\<rparr>)"

fun openai_convertTools :: "golib \<Rightarrow> Tool option list \<Rightarrow> error + FunctionDefinitionParam list" where
  "openai_convertTools L [] = Inr []"
| "openai_convertTools L (None # genaiTools) = openai_convertTools L genaiTools"
| "openai_convertTools L (Some genaiTool # genaiTools) =
     (case openai_convertTools L genaiTools of
        Inl err \<Rightarrow> Inl err
      | Inr tools \<Rightarrow>
          Inr (map (functionToolOf L) (tool_FunctionDeclarations genaiTool) @ tools))"

definition ThinkingLevelLow :: string where "ThinkingLevelLow = ''LOW''"
definition ThinkingLevelHigh :: string where "ThinkingLevelHigh = ''HIGH''"

definition convertThinkingLevel :: "string \<Rightarrow> string" where
  "convertThinkingLevel level =
     (if level = ThinkingLevelLow then ''low''
      else if level = ThinkingLevelHigh then ''high''
      else ''medium'')"

definition applyGenerationConfig ::
  "golib \<Rightarrow> ChatCompletionNewParams \<Rightarrow> GenerateContentConfig \<Rightarrow> ChatCompletionNewParams" where
  "applyGenerationConfig L params cfg =
     (let params = (case cfg_Temperature cfg of
                      Some t \<Rightarrow> params\<lparr>cparams_Temperature := Some t\<rparr>
                    | None \<Rightarrow> params);
          params = (if 0 <s cfg_MaxOutputTokens cfg
                    then params\<lparr>cparams_MaxTokens := Some (scast (cfg_MaxOutputTokens cfg))\<rparr>
                    else params);
          params = (case cfg_TopP cfg of
                      Some p \<Rightarrow> params\<lparr>cparams_TopP := Some p\<rparr>
                    | None \<Rightarrow> params);
          params = (if length (cfg_StopSequences cfg) = 1
                    then params\<lparr>cparams_Stop := Some (OfString (cfg_StopSequences cfg ! 0))\<rparr>
                    else if length (cfg_StopSequences cfg) > 1
                    then params\<lparr>cparams_Stop := Some (OfStringArray (cfg_StopSequences cfg))\<rparr>
                    else params);
          params = (case cfg_ThinkingConfig cfg of
                      Some level \<Rightarrow>
                        params\<lparr>cparams_ReasoningEffort := Some (convertThinkingLevel level)\<rparr>
                    | None \<Rightarrow> params);
          params = (if cfg_ResponseMIMEType cfg = ''application/json''
                    then params\<lparr>cparams_ResponseFormat := Some OfJSONObject\<rparr>
                    else params);
          params = (case cfg_ResponseSchema cfg of
                      Some rs \<Rightarrow>
                        (case convertSchema (Some rs) of
                           Inr schemaMap \<Rightarrow>
                             params\<lparr>cparams_ResponseFormat :=
                                      Some (OfJSONSchema ''response'' (schema_Description rs)
                                              schemaMap True)\<rparr>
                         | Inl err \<Rightarrow> params)
                    | None \<Rightarrow> params)
      in if length (cfg_Tools cfg) > 0
         then (case openai_convertTools L (cfg_Tools cfg) of
                 Inr tools \<Rightarrow> params\<lparr>cparams_Tools := tools\<rparr>
               | Inl err \<Rightarrow> params)
         else params)"

text \<open>The loop of \<open>buildChatCompletionParams\<close> over \<open>req.Contents\<close>.\<close>

fun convertContentsLoop ::
  "golib \<Rightarrow> Model \<Rightarrow> ChatCompletionMessageParam list \<Rightarrow> Content list
   \<Rightarrow> (error + ChatCompletionMessageParam list) \<times> Model" where
  "convertContentsLoop L m messages [] = (Inr messages, m)"
| "convertContentsLoop L m messages (content # contents) =
     (case convertContentToMessages L m content of
        (Inl err, m) \<Rightarrow> (Inl err, m)
      | (Inr msgs, m) \<Rightarrow> convertContentsLoop L m (messages @ msgs) contents)"

definition buildChatCompletionParams ::
  "golib \<Rightarrow> Model \<Rightarrow> LLMRequest \<Rightarrow> (error + ChatCompletionNewParams) \<times> Model" where
  "buildChatCompletionParams L m req =
     (let messages =
            (case req_Config req of
               None \<Rightarrow> []
             | Some cfg \<Rightarrow>
                 (case cfg_SystemInstruction cfg of
                    None \<Rightarrow> []
                  | Some si \<Rightarrow>
                      (let text = extractText (Some si)
                       in if text \<noteq> '''' then [SystemMessage text] else [])))
      in case convertContentsLoop L m messages (req_Contents req) of
           (Inl err, m) \<Rightarrow> (Inl err, m)
         | (Inr messages, m) \<Rightarrow>
             (let params = \<lparr>cparams_Model = modelName m, cparams_Messages = messages,
                            cparams_Temperature = None, cparams_MaxTokens = None,
                            cparams_TopP = None, cparams_Stop = None,
                            cparams_ReasoningEffort = None, cparams_ResponseFormat = None,
                            cparams_Tools = []\<rparr>
              in case req_Config req of
                   None \<Rightarrow> (Inr params, m)
                 | Some cfg \<Rightarrow> (Inr (applyGenerationConfig L params cfg), m)))"

subsection \<open>Response converter and stream aggregator\<close>

definition parseJSONArgs :: "golib \<Rightarrow> string \<Rightarrow> gomap" where
  "parseJSONArgs L argsJSON =
     (if argsJSON = '''' then []
      else case json_Unmarshal L argsJSON of
             Inl err \<Rightarrow> []
           | Inr args \<Rightarrow> args)"

definition convertUsageMetadata :: "CompletionUsage \<Rightarrow> UsageMetadata option" where
  "convertUsageMetadata usage =
     (if cu_TotalTokens usage = 0 then None
      else Some \<lparr>PromptTokenCount = ucast (cu_PromptTokens usage),
                 CandidatesTokenCount = ucast (cu_CompletionTokens usage),
                 TotalTokenCount = ucast (cu_TotalTokens usage)\<rparr>)"

definition toolCallPart :: "golib \<Rightarrow> ToolCall \<Rightarrow> Part" where
  "toolCallPart L tc =
     functionCallPart \<lparr>fc_ID = tc_ID tc, fc_Name = tc_Function_Name tc,
                       fc_Args = parseJSONArgs L (tc_Function_Arguments tc)\<rparr>"

definition choiceParts :: "golib \<Rightarrow> Choice \<Rightarrow> Part list" where
  "choiceParts L choice =
     (if cm_Content (choice_Message choice) \<noteq> ''''
      then [textPart (cm_Content (choice_Message choice))] else [])
     @ map (toolCallPart L) (cm_ToolCalls (choice_Message choice))"

definition openai_convertResponse :: "golib \<Rightarrow> ChatCompletion \<Rightarrow> error + LLMResponse" where
  "openai_convertResponse L resp =
     (case cc_Choices resp of
        [] \<Rightarrow> Inl ErrNoChoicesInResponse
      | choice # _ \<Rightarrow>
          Inr \<lparr>resp_Content = \<lparr>content_Role = RoleModel, content_Parts = choiceParts L choice\<rparr>,
               resp_UsageMetadata = convertUsageMetadata (cc_Usage resp),
               resp_FinishReason = convertFinishReason (choice_FinishReason choice),
               resp_Partial = False, resp_TurnComplete = True\<rparr>)"

definition buildStreamFinalResponse :: "golib \<Rightarrow> ChatCompletion \<Rightarrow> LLMResponse" where
  "buildStreamFinalResponse L acc =
     (let parts = (case cc_Choices acc of [] \<Rightarrow> [] | choice # _ \<Rightarrow> choiceParts L choice);
          finishReason = (case cc_Choices acc of
                            [] \<Rightarrow> FinishReasonNone
                          | choice # _ \<Rightarrow> convertFinishReason (choice_FinishReason choice))
      in \<lparr>resp_Content = \<lparr>content_Role = RoleModel, content_Parts = parts\<rparr>,
          resp_UsageMetadata = convertUsageMetadata (cc_Usage acc),
          resp_FinishReason = finishReason,
          resp_Partial = False, resp_TurnComplete = True\<rparr>)"

definition openai_generate ::
  "golib \<Rightarrow> openaiSDK \<Rightarrow> Model \<Rightarrow> LLMRequest \<Rightarrow> item list \<times> Model" where
  "openai_generate L S m req =
     (case buildChatCompletionParams L m req of
        (Inl err, m) \<Rightarrow> ([(None, Some err)], m)
      | (Inr params, m) \<Rightarrow>
          (case Completions_New S params of
             Inl err \<Rightarrow> ([(None, Some err)], m)
           | Inr resp \<Rightarrow>
               (case openai_convertResponse L resp of
                  Inl err \<Rightarrow> ([(None, Some err)], m)
                | Inr llmResp \<Rightarrow> ([(Some llmResp, None)], m))))"

text \<open>
  The \<open>for stream.Next()\<close> loop. It returns the items handed to \<open>yield\<close> so far and
  the accumulator; the accumulator is \<open>None\<close> when the function has returned from
  inside the loop.
\<close>

fun openai_streamLoop ::
  "openaiSDK \<Rightarrow> yield \<Rightarrow> ChatCompletion \<Rightarrow> item list \<Rightarrow> ChatCompletionChunk list
   \<Rightarrow> item list \<times> ChatCompletion option" where
  "openai_streamLoop S yield acc out [] = (out, Some acc)"
| "openai_streamLoop S yield acc out (chunk # chunks) =
     (let acc = Accumulator_AddChunk S acc chunk
      in if length (chunk_Choices chunk) > 0
            \<and> delta_Content (cchoice_Delta (chunk_Choices chunk ! 0)) \<noteq> ''''
         then (let out = out @ [(Some (partialResponse
                                         (delta_Content (cchoice_Delta (chunk_Choices chunk ! 0)))),
                                 None)]
               in if \<not> yield out then (out, None)
                  else openai_streamLoop S yield acc out chunks)
         else openai_streamLoop S yield acc out chunks)"

definition openai_generateStream ::
  "golib \<Rightarrow> openaiSDK \<Rightarrow> Model \<Rightarrow> LLMRequest \<Rightarrow> yield \<Rightarrow> item list \<times> Model" where
  "openai_generateStream L S m req yield =
     (case buildChatCompletionParams L m req of
        (Inl err, m) \<Rightarrow> ([(None, Some err)], m)
      | (Inr params, m) \<Rightarrow>
          (case Completions_NewStreaming S params of
             (chunks, streamErr) \<Rightarrow>
               (case openai_streamLoop S yield emptyAccumulator [] chunks of
                  (out, None) \<Rightarrow> (out, m)
                | (out, Some acc) \<Rightarrow>
                    (case streamErr of
                       Some err \<Rightarrow> (out @ [(None, Some err)], m)
                     | None \<Rightarrow> (out @ [(Some (buildStreamFinalResponse L acc), None)], m)))))"

section \<open>Notions used to state the properties\<close>

text \<open>
  What a repaired assistant message keeps: every block that is not a tool use, and a
  tool-use block when its ID is in the given list.
\<close>

definition keptBlock :: "string list \<Rightarrow> ContentBlockParam \<Rightarrow> bool" where
  "keptBlock ids block = (case block of OfToolUse tid name input \<Rightarrow> tid \<in> set ids | _ \<Rightarrow> True)"

text \<open>
  The incremental text delta of a vendor chunk, as each stream loop reads it, and the
  items a list of deltas gives rise to: one partial response for each non-empty delta.
\<close>

definition chunkDelta :: "ChatCompletionChunk \<Rightarrow> string" where
  "chunkDelta chunk =
     (if length (chunk_Choices chunk) > 0
      then delta_Content (cchoice_Delta (chunk_Choices chunk ! 0)) else '''')"

definition eventDelta :: "MessageStreamEvent \<Rightarrow> string" where
  "eventDelta event =
     (case event of ContentBlockDeltaEvent index (TextDelta text) \<Rightarrow> text | _ \<Rightarrow> '''')"

definition partialItems :: "string list \<Rightarrow> item list" where
  "partialItems deltas =
     map (\<lambda>text. (Some (partialResponse text), None)) (filter (\<lambda>text. text \<noteq> '''') deltas)"


text \<open>The text the vendor SDK has accumulated: of the first choice, of the text blocks.\<close>

definition accumulatedText :: "ChatCompletion \<Rightarrow> string" where
  "accumulatedText acc =
     (case cc_Choices acc of [] \<Rightarrow> '''' | choice # _ \<Rightarrow> cm_Content (choice_Message choice))"



text \<open>The SDK's accumulation of a whole list of events, stopping at its first error.\<close>

fun accumulateAll :: "anthropicSDK \<Rightarrow> Message \<Rightarrow> MessageStreamEvent list \<Rightarrow> error + Message" where
  "accumulateAll A message [] = Inr message"
| "accumulateAll A message (event # events) =
     (case Message_Accumulate A message event of
        Inl err \<Rightarrow> Inl err
      | Inr message \<Rightarrow> accumulateAll A message events)"

text \<open>
  An item that is not a final response: a response that is partial and does not
  complete the turn, or an error in place of a response.
\<close>

fun notFinal :: "item \<Rightarrow> bool" where
  "notFinal (Some r, e) = (resp_Partial r \<and> \<not> resp_TurnComplete r)"
| "notFinal (None, e) = (e \<noteq> None)"

section \<open>Library results for concrete inputs\<close>

text \<open>
  Concrete evaluations need concrete library results. The functions below are finite
  tables of what the Go library returns on the inputs the examples use: the SHA-256
  digests of two tool-call IDs, the JSON encoding of the empty map, the decoding of
  \<open>{}\<close> and the decoder's rejection of \<open>not json\<close>, and the base64 encoding of the
  bytes \<open>hi\<close>. Outside the tables they answer with a fixed value or an error; no
  example reads them there.
\<close>

definition exampleSum256 :: "string \<Rightarrow> digest" where
  "exampleSum256 s =
     (if s = ''functions.get_weather:0''
        then 0x79ac1aaab216b228c7ab22411b23ccfa39cb42078801e32c6fe4b2bec9dbb23a
      else if s = ''call_9f2c41d08b7e4a65b3c1d7e2f0a94c5e8b6d''
        then 0xd771fdaff95f5a6dc8c92ac7a6b502ec178d6e227fa1fed5b73244f186325f21
      else 0)"

definition exampleMarshal :: "goval \<Rightarrow> error + string" where
  "exampleMarshal v =
     (if v = AnyMap [] then Inr ''{}'' else Inl (LibraryError ''json: not tabulated''))"

definition exampleUnmarshal :: "string \<Rightarrow> error + gomap" where
  "exampleUnmarshal s =
     (if s = ''{}'' then Inr []
      else if s = ''not json''
        then Inl (LibraryError ''invalid character o in literal null (expecting u)'')
      else Inl (LibraryError ''json: not tabulated''))"

definition exampleBase64 :: "byte list \<Rightarrow> string" where
  "exampleBase64 bs = (if bs = [0x68, 0x69] then ''aGk='' else '''')"

definition exampleLib :: golib where
  "exampleLib = \<lparr>sha256_Sum256 = exampleSum256, json_Marshal = exampleMarshal,
                  json_Unmarshal = exampleUnmarshal, base64_EncodeToString = exampleBase64\<rparr>"

text \<open>Messages, responses and requests for the examples.\<close>

definition exampleAssistant :: "ContentBlockParam list \<Rightarrow> MessageParam" where
  "exampleAssistant blocks = \<lparr>msg_Role = MessageParamRoleAssistant, msg_Content = blocks\<rparr>"

definition exampleUser :: "ContentBlockParam list \<Rightarrow> MessageParam" where
  "exampleUser blocks = \<lparr>msg_Role = MessageParamRoleUser, msg_Content = blocks\<rparr>"

definition exampleToolCall :: ToolCall where
  "exampleToolCall = \<lparr>tc_ID = ''call_1'', tc_Function_Name = ''get_weather'',
                      tc_Function_Arguments = ''not json''\<rparr>"

definition exampleCompletion :: ChatCompletion where
  "exampleCompletion =
     \<lparr>cc_ID = ''chatcmpl-1'',
      cc_Choices = [\<lparr>choice_Index = 0,
                     choice_Message = \<lparr>cm_Content = '''', cm_ToolCalls = [exampleToolCall]\<rparr>,
                     choice_FinishReason = ''tool_calls''\<rparr>],
      cc_Usage = \<lparr>cu_PromptTokens = 0, cu_CompletionTokens = 0, cu_TotalTokens = 0\<rparr>\<rparr>"

definition exampleToolUseMessage :: Message where
  "exampleToolUseMessage =
     \<lparr>message_Content = [ToolUseBlock ''toolu_1'' ''get_weather'' (AnyRawMessage ''not json'')],
      message_StopReason = ''tool_use'',
      message_Usage = \<lparr>usage_InputTokens = 0, usage_OutputTokens = 0\<rparr>\<rparr>"

definition exampleConfig :: "32 word \<Rightarrow> GenerateContentConfig" where
  "exampleConfig maxOutputTokens =
     \<lparr>cfg_SystemInstruction = None, cfg_Temperature = None, cfg_TopP = None,
      cfg_MaxOutputTokens = maxOutputTokens, cfg_StopSequences = [],
      cfg_ResponseMIMEType = '''', cfg_ResponseSchema = None, cfg_ThinkingConfig = None,
      cfg_Tools = []\<rparr>"

definition exampleRequest :: "GenerateContentConfig option \<Rightarrow> LLMRequest" where
  "exampleRequest cfg =
     \<lparr>req_Contents = [\<lparr>content_Role = ''user'', content_Parts = [textPart ''hi'']\<rparr>],
      req_Config = cfg\<rparr>"

definition exampleParams :: "64 word \<Rightarrow> MessageNewParams" where
  "exampleParams maxTokens =
     \<lparr>params_Model = ''claude'', params_MaxTokens = maxTokens, params_System = [],
      params_Messages = [exampleUser [OfText ''hi'']], params_Temperature = None,
      params_TopP = None, params_StopSequences = [], params_Tools = []\<rparr>"

text \<open>
  Streams for the examples. \<open>exampleAddChunk\<close> and \<open>exampleAccumulate\<close> are the SDK's
  accumulation on the streams the examples use: single-choice chunks without tool calls,
  whose delta is appended to the one accumulated choice, and text blocks that grow by
  their text deltas.
\<close>

definition exampleChunk :: "string \<Rightarrow> ChatCompletionChunk" where
  "exampleChunk text =
     \<lparr>chunk_ID = ''chatcmpl-1'',
      chunk_Choices = [\<lparr>cchoice_Index = 0,
                        cchoice_Delta = \<lparr>delta_Content = text, delta_ToolCalls = []\<rparr>,
                        cchoice_FinishReason = ''''\<rparr>],
      chunk_Usage = \<lparr>cu_PromptTokens = 0, cu_CompletionTokens = 0, cu_TotalTokens = 0\<rparr>\<rparr>"

definition exampleAddChunk :: "ChatCompletion \<Rightarrow> ChatCompletionChunk \<Rightarrow> ChatCompletion" where
  "exampleAddChunk acc chunk =
     (case chunk_Choices chunk of
        [] \<Rightarrow> acc
      | d # _ \<Rightarrow>
          acc\<lparr>cc_ID := chunk_ID chunk,
              cc_Choices :=
                [\<lparr>choice_Index = 0,
                  choice_Message =
                    \<lparr>cm_Content = accumulatedText acc @ delta_Content (cchoice_Delta d),
                     cm_ToolCalls = []\<rparr>,
                  choice_FinishReason = cchoice_FinishReason d\<rparr>]\<rparr>)"

definition exampleOpenAI :: "ChatCompletionChunk list \<Rightarrow> error option \<Rightarrow> openaiSDK" where
  "exampleOpenAI chunks streamErr =
     \<lparr>Completions_New = (\<lambda>params. Inl (LibraryError ''connection refused'')),
      Completions_NewStreaming = (\<lambda>params. (chunks, streamErr)),
      Accumulator_AddChunk = exampleAddChunk\<rparr>"

definition exampleAccumulate :: "Message \<Rightarrow> MessageStreamEvent \<Rightarrow> error + Message" where
  "exampleAccumulate message event =
     (case event of
        MessageStartEvent msg \<Rightarrow> Inr msg
      | ContentBlockStartEvent index block \<Rightarrow>
          Inr (message\<lparr>message_Content := message_Content message @ [block]\<rparr>)
      | ContentBlockDeltaEvent index delta \<Rightarrow>
          if message_Content message = []
          then Inl (LibraryError
                 ''received event of type content_block_delta but there was no content block'')
          else (case (last (message_Content message), delta) of
                  (TextBlock t, TextDelta d) \<Rightarrow>
                    Inr (message\<lparr>message_Content :=
                                   butlast (message_Content message) @ [TextBlock (t @ d)]\<rparr>)
                | _ \<Rightarrow> Inr message)
      | MessageDeltaEvent stop usage \<Rightarrow>
          Inr (message\<lparr>message_StopReason := stop, message_Usage := usage\<rparr>)
      | _ \<Rightarrow> Inr message)"

definition exampleAnthropic :: "MessageStreamEvent list \<Rightarrow> error option \<Rightarrow> anthropicSDK" where
  "exampleAnthropic events streamErr =
     \<lparr>Messages_New = (\<lambda>params. Inl (LibraryError ''connection refused'')),
      Messages_NewStreaming = (\<lambda>params. (events, streamErr)),
      Message_Accumulate = exampleAccumulate\<rparr>"



definition exampleChatParams :: ChatCompletionNewParams where
  "exampleChatParams =
     \<lparr>cparams_Model = ''gpt-4o'', cparams_Messages = [UserMessage ''hi''],
      cparams_Temperature = None, cparams_MaxTokens = None, cparams_TopP = None,
      cparams_Stop = None, cparams_ReasoningEffort = None, cparams_ResponseFormat = None,
      cparams_Tools = []\<rparr>"


definition exampleTransportError :: error where
  "exampleTransportError = LibraryError ''unexpected EOF''"

definition exampleCutEvents :: "MessageStreamEvent list" where
  "exampleCutEvents =
     [MessageStartEvent emptyMessage, ContentBlockStartEvent 0 (TextBlock ''''),
      ContentBlockDeltaEvent 0 (TextDelta ''Hel''), ContentBlockDeltaEvent 0 (TextDelta ''lo'')]"

section \<open>Hex encoding and digests: basic facts\<close>

lemma length_wordBytes: "length (wordBytes n w) = n"
  by (induction n arbitrary: w) simp_all

lemma length_digestBytes: "length (digestBytes h) = 32"
  by (simp add: digestBytes_def length_wordBytes)

lemma length_hex_EncodeToString: "length (hex_EncodeToString bs) = 2 * length bs"
  by (induction bs) (simp_all add: hex_EncodeToString_def hexByte_def)

lemma hextable_chars: "list_all isToolIDChar hextable"
  by (simp add: hextable_def isToolIDChar_def)

lemma hextable_nth: "n < 16 \<Longrightarrow> isToolIDChar (hextable ! n)"
proof -
  assume "n < 16"
  moreover have "length hextable = 16" by (simp add: hextable_def)
  ultimately show ?thesis
    using hextable_chars by (simp add: list_all_length)
qed

lemma hi_nibble: "unat (drop_bit 4 (b :: byte)) < 16"
proof -
  have "unat (drop_bit 4 b) = unat b div 2 ^ 4"
    by (simp add: drop_bit_eq_div unat_div)
  moreover have "unat b < 2 ^ 8"
    using unsigned_less [of b] by simp
  ultimately show ?thesis by simp
qed

lemma lo_nibble: "unat ((b :: byte) AND 0x0f) < 16"
proof -
  have "b AND 0x0f \<le> 0x0f" by (rule word_and_le1)
  then have "unat (b AND 0x0f) \<le> unat (0x0f :: byte)"
    by (simp add: word_le_nat_alt)
  then show ?thesis by simp
qed

lemma hexByte_chars: "list_all isToolIDChar (hexByte b)"
  by (simp add: hexByte_def hextable_nth hi_nibble lo_nibble)

lemma hex_EncodeToString_chars: "list_all isToolIDChar (hex_EncodeToString bs)"
  by (induction bs) (simp_all add: hex_EncodeToString_def hexByte_chars)

lemma toolu_chars: "list_all isToolIDChar ''toolu_''"
  by (simp add: isToolIDChar_def)

section \<open>Finish-reason mapping\<close>

text \<open>
  Claim C7, as stated: both adapters map finish reasons through the one table of the
  specification. It fails: the Chat-Completions adapter does not know the reason
  \<open>end_turn\<close>, which the table sends to stop.
\<close>

theorem finish_reason_one_table_counterexample:
  "convertFinishReason ''end_turn'' \<noteq> finishReasonTable ''end_turn''"
  by (simp add: convertFinishReason_def finishReasonTable_def)

text \<open>
  Claim C7, amended: each adapter maps its own vendor's reasons as the table says and
  every other string to unspecified. The Chat-Completions adapter follows the table except
  on the four Messages-style reasons, the Messages adapter except on the five
  Chat-Completions-style ones; there each answers unspecified.
\<close>

theorem finish_reason_per_vendor:
  "convertFinishReason r =
     (if r \<in> set [''end_turn'', ''stop_sequence'', ''tool_use'', ''max_tokens'']
      then FinishReasonUnspecified else finishReasonTable r)
   \<and> convertStopReason r =
     (if r \<in> set [''stop'', ''tool_calls'', ''function_call'', ''length'', ''content_filter'']
      then FinishReasonUnspecified else finishReasonTable r)"
  by (simp add: convertFinishReason_def convertStopReason_def finishReasonTable_def
      StopReasonEndTurn_def StopReasonMaxTokens_def StopReasonStopSequence_def
      StopReasonToolUse_def)

section \<open>Charset-limited tool-call IDs\<close>

lemma sanitize_valid: "anthropicToolIDPattern (sanitizeToolID h s)"
  using toolu_chars hex_EncodeToString_chars [of "take 16 (digestBytes (h s))"]
  by (simp add: sanitizeToolID_def anthropicToolIDPattern_def)

lemma sanitize_matching: "anthropicToolIDPattern s \<Longrightarrow> sanitizeToolID h s = s"
  by (simp add: sanitizeToolID_def)

text \<open>
  Claim C4: an ID that matches the pattern is returned unchanged; any other ID is replaced
  by \<open>toolu_\<close> followed by the hex of the first 16 digest bytes, a function of the ID
  alone, which matches the pattern; so the sanitizer's output always matches and
  sanitizing twice is sanitizing once.
\<close>

theorem sanitizeToolID_charset:
  "(anthropicToolIDPattern s \<longrightarrow> sanitizeToolID Sum256 s = s)
   \<and> (\<not> anthropicToolIDPattern s \<longrightarrow>
        sanitizeToolID Sum256 s = ''toolu_'' @ hex_EncodeToString (take 16 (digestBytes (Sum256 s)))
        \<and> length (sanitizeToolID Sum256 s) = 38)
   \<and> anthropicToolIDPattern (sanitizeToolID Sum256 s)
   \<and> sanitizeToolID Sum256 (sanitizeToolID Sum256 s) = sanitizeToolID Sum256 s"
  by (simp add: sanitize_valid sanitize_matching)
    (simp add: sanitizeToolID_def length_hex_EncodeToString length_digestBytes)

theorem sanitizeToolID_charset_witness:
  "anthropicToolIDPattern ''toolu_01A'' \<and> sanitizeToolID exampleSum256 ''toolu_01A'' = ''toolu_01A''
   \<and> \<not> anthropicToolIDPattern ''functions.get_weather:0''
   \<and> sanitizeToolID exampleSum256 ''functions.get_weather:0''
       = ''toolu_79ac1aaab216b228c7ab22411b23ccfa''
   \<and> anthropicToolIDPattern ''toolu_79ac1aaab216b228c7ab22411b23ccfa''
   \<and> sanitizeToolID exampleSum256 ''toolu_79ac1aaab216b228c7ab22411b23ccfa''
       = ''toolu_79ac1aaab216b228c7ab22411b23ccfa''"
proof -
  have p1: "anthropicToolIDPattern ''toolu_01A''"
    by (simp add: anthropicToolIDPattern_def isToolIDChar_def)
  have p2: "\<not> anthropicToolIDPattern ''functions.get_weather:0''"
    by (simp add: anthropicToolIDPattern_def isToolIDChar_def)
  have d: "hex_EncodeToString (take 16 (digestBytes (exampleSum256 ''functions.get_weather:0'')))
           = ''79ac1aaab216b228c7ab22411b23ccfa''"
    by code_simp
  note A = sanitizeToolID_charset [of "''toolu_01A''" exampleSum256]
  note B = sanitizeToolID_charset [of "''functions.get_weather:0''" exampleSum256]
  have a: "sanitizeToolID exampleSum256 ''toolu_01A'' = ''toolu_01A''"
    using A p1 by blast
  have e: "sanitizeToolID exampleSum256 ''functions.get_weather:0''
           = ''toolu_79ac1aaab216b228c7ab22411b23ccfa''"
    using B p2 d by simp
  have v: "anthropicToolIDPattern ''toolu_79ac1aaab216b228c7ab22411b23ccfa''"
    using B unfolding e by blast
  have i: "sanitizeToolID exampleSum256 ''toolu_79ac1aaab216b228c7ab22411b23ccfa''
           = ''toolu_79ac1aaab216b228c7ab22411b23ccfa''"
    using B unfolding e by blast
  from p1 a p2 e v i show ?thesis by blast
qed

section \<open>Length-limited tool-call IDs\<close>

lemma length_shortIDOf: "length (shortIDOf h s) = 40"
  by (simp add: shortIDOf_def maxToolCallIDLength_def length_hex_EncodeToString
      length_digestBytes)

lemma take3_shortIDOf: "take 3 (shortIDOf h s) = ''tc_''"
  by (simp add: shortIDOf_def)

lemma normalize_short: "length s \<le> 40 \<Longrightarrow> normalizeToolCallID h m s = (s, m)"
  by (simp add: normalizeToolCallID_def maxToolCallIDLength_def)

lemma normalize_long:
  "40 < length s \<Longrightarrow>
   normalizeToolCallID h m s
     = (shortIDOf h s, m\<lparr>toolCallIDMap := (toolCallIDMap m)(shortIDOf h s \<mapsto> s)\<rparr>)"
  by (simp add: normalizeToolCallID_def maxToolCallIDLength_def Let_def)

lemma normalizeAll_keeps:
  "toolCallIDMap m k = Some v \<Longrightarrow>
   \<forall>t\<in>set tids. 40 < length t \<and> shortIDOf h t = k \<longrightarrow> t = v \<Longrightarrow>
   toolCallIDMap (normalizeAll h m tids) k = Some v"
proof (induction tids arbitrary: m)
  case Nil
  then show ?case by simp
next
  case (Cons t tids)
  show ?case
  proof (cases "length t \<le> 40")
    case True
    with Cons show ?thesis by (simp add: normalize_short)
  next
    case False
    then have long: "40 < length t" by simp
    have "toolCallIDMap (snd (normalizeToolCallID h m t)) k = Some v"
      using Cons.prems long by (auto simp: normalize_long)
    with Cons show ?thesis by simp
  qed
qed

lemma example_shortID:
  "shortIDOf exampleSum256 ''call_9f2c41d08b7e4a65b3c1d7e2f0a94c5e8b6d''
   = ''tc_d771fdaff95f5a6dc8c92ac7a6b502ec178d6''"
  by code_simp

text \<open>
  Claim C3, as stated: every ID of length at most 40 is its own denormalization. It
  fails on an instance that has shortened a longer ID: the short ID it produced has
  length 40, and the table sends it back to the long one.
\<close>

theorem normalizeToolCallID_counterexample:
  "length ''tc_d771fdaff95f5a6dc8c92ac7a6b502ec178d6'' \<le> 40
   \<and> denormalizeToolCallID
        (snd (normalizeToolCallID exampleSum256 (New ''gpt-4o'')
                ''call_9f2c41d08b7e4a65b3c1d7e2f0a94c5e8b6d''))
        ''tc_d771fdaff95f5a6dc8c92ac7a6b502ec178d6''
       \<noteq> ''tc_d771fdaff95f5a6dc8c92ac7a6b502ec178d6''"
  by (simp add: normalize_long example_shortID denormalizeToolCallID_def)

text \<open>
  Claim C3, amended. An ID of length at most 40 is returned unchanged by normalize, which
  leaves the table as it was, and is its own denormalization when it is not a key of the
  table, as on a fresh instance. An ID longer than 40 is mapped to \<open>tc_\<close> followed by 37
  hex digits of its digest, 40 characters in all, and denormalizing that short ID gives
  the original back: right after the call, and after any further normalizations on the
  instance among which no other long ID has the same short ID.
\<close>

theorem normalizeToolCallID_policy:
  "(length s \<le> 40 \<longrightarrow>
      normalizeToolCallID Sum256 m s = (s, m)
      \<and> (toolCallIDMap m s = None \<longrightarrow> denormalizeToolCallID m s = s)
      \<and> denormalizeToolCallID (New name) s = s)
   \<and> (40 < length s \<longrightarrow>
        fst (normalizeToolCallID Sum256 m s) = shortIDOf Sum256 s
        \<and> length (shortIDOf Sum256 s) = 40
        \<and> take 3 (shortIDOf Sum256 s) = ''tc_''
        \<and> denormalizeToolCallID (snd (normalizeToolCallID Sum256 m s)) (shortIDOf Sum256 s) = s
        \<and> (\<forall>tids. (\<forall>t\<in>set tids. 40 < length t \<and> shortIDOf Sum256 t = shortIDOf Sum256 s \<longrightarrow> t = s)
              \<longrightarrow> denormalizeToolCallID
                    (normalizeAll Sum256 (snd (normalizeToolCallID Sum256 m s)) tids)
                    (shortIDOf Sum256 s) = s))"
proof (intro conjI impI allI)
  assume "length s \<le> 40"
  then show "normalizeToolCallID Sum256 m s = (s, m)" by (rule normalize_short)
next
  assume "toolCallIDMap m s = None"
  then show "denormalizeToolCallID m s = s" by (simp add: denormalizeToolCallID_def)
next
  show "denormalizeToolCallID (New name) s = s"
    by (simp add: denormalizeToolCallID_def New_def)
next
  assume "40 < length s"
  then show "fst (normalizeToolCallID Sum256 m s) = shortIDOf Sum256 s"
    by (simp add: normalize_long)
next
  show "length (shortIDOf Sum256 s) = 40" by (rule length_shortIDOf)
next
  show "take 3 (shortIDOf Sum256 s) = ''tc_''" by (rule take3_shortIDOf)
next
  assume "40 < length s"
  then show "denormalizeToolCallID (snd (normalizeToolCallID Sum256 m s)) (shortIDOf Sum256 s) = s"
    by (simp add: normalize_long denormalizeToolCallID_def)
next
  fix tids
  assume long: "40 < length s"
    and inj: "\<forall>t\<in>set tids. 40 < length t \<and> shortIDOf Sum256 t = shortIDOf Sum256 s \<longrightarrow> t = s"
  have "toolCallIDMap (snd (normalizeToolCallID Sum256 m s)) (shortIDOf Sum256 s) = Some s"
    using long by (simp add: normalize_long)
  then have "toolCallIDMap (normalizeAll Sum256 (snd (normalizeToolCallID Sum256 m s)) tids)
               (shortIDOf Sum256 s) = Some s"
    using inj by (rule normalizeAll_keeps)
  then show "denormalizeToolCallID
               (normalizeAll Sum256 (snd (normalizeToolCallID Sum256 m s)) tids)
               (shortIDOf Sum256 s) = s"
    by (simp add: denormalizeToolCallID_def)
qed

theorem normalizeToolCallID_policy_witness:
  "length ''call_abc'' \<le> 40
   \<and> normalizeToolCallID exampleSum256 (New ''gpt-4o'') ''call_abc'' = (''call_abc'', New ''gpt-4o'')
   \<and> toolCallIDMap (New ''gpt-4o'') ''call_abc'' = None
   \<and> denormalizeToolCallID (New ''gpt-4o'') ''call_abc'' = ''call_abc''
   \<and> 40 < length ''call_9f2c41d08b7e4a65b3c1d7e2f0a94c5e8b6d''
   \<and> fst (normalizeToolCallID exampleSum256 (New ''gpt-4o'')
            ''call_9f2c41d08b7e4a65b3c1d7e2f0a94c5e8b6d'')
       = ''tc_d771fdaff95f5a6dc8c92ac7a6b502ec178d6''
   \<and> denormalizeToolCallID
        (snd (normalizeToolCallID exampleSum256 (New ''gpt-4o'')
                ''call_9f2c41d08b7e4a65b3c1d7e2f0a94c5e8b6d''))
        ''tc_d771fdaff95f5a6dc8c92ac7a6b502ec178d6''
       = ''call_9f2c41d08b7e4a65b3c1d7e2f0a94c5e8b6d''
   \<and> denormalizeToolCallID
        (normalizeAll exampleSum256
           (snd (normalizeToolCallID exampleSum256 (New ''gpt-4o'')
                   ''call_9f2c41d08b7e4a65b3c1d7e2f0a94c5e8b6d''))
           [''call_abc'', ''call_9f2c41d08b7e4a65b3c1d7e2f0a94c5e8b6d''])
        ''tc_d771fdaff95f5a6dc8c92ac7a6b502ec178d6''
       = ''call_9f2c41d08b7e4a65b3c1d7e2f0a94c5e8b6d''"
proof -
  have s: "length ''call_abc'' \<le> 40" by simp
  have n: "toolCallIDMap (New ''gpt-4o'') ''call_abc'' = None" by (simp add: New_def)
  have l: "40 < length ''call_9f2c41d08b7e4a65b3c1d7e2f0a94c5e8b6d''" by simp
  have i: "\<forall>t\<in>set [''call_abc'', ''call_9f2c41d08b7e4a65b3c1d7e2f0a94c5e8b6d''].
             40 < length t
             \<and> shortIDOf exampleSum256 t
                 = shortIDOf exampleSum256 ''call_9f2c41d08b7e4a65b3c1d7e2f0a94c5e8b6d''
             \<longrightarrow> t = ''call_9f2c41d08b7e4a65b3c1d7e2f0a94c5e8b6d''"
    by simp
  note A = normalizeToolCallID_policy
             [of "''call_abc''" exampleSum256 "New ''gpt-4o''" "''gpt-4o''"]
  note B = normalizeToolCallID_policy
             [of "''call_9f2c41d08b7e4a65b3c1d7e2f0a94c5e8b6d''" exampleSum256
                 "New ''gpt-4o''" "''gpt-4o''", unfolded example_shortID]
  from A s n B l i [unfolded example_shortID] show ?thesis
    by blast
qed

section \<open>Schema converter: nil schema and type tags\<close>

lemma convert_never_fails:
  "(\<exists>r. convertSchema so = Inr r)" "(\<exists>r. convertProperties ps = Inr r)"
proof (induction so and ps rule: convertSchema_convertProperties.induct)
  case 1
  show ?case by simp
next
  case (2 t description required enum properties items)
  have props: "properties \<noteq> [] \<Longrightarrow> \<exists>r. convertProperties properties = Inr r"
    using "2.IH"(1) by simp
  show ?case
  proof (cases items)
    case None
    then show ?thesis using props
      by (cases "properties = []") (auto simp: Let_def)
  next
    case (Some its)
    have "\<exists>r. convertSchema (Some its) = Inr r"
      using "2.IH"(2) Some props
      by (cases "properties = []") (auto simp: Let_def)
    then show ?thesis using props Some
      by (cases "properties = []") (auto simp: Let_def)
  qed
next
  case 3
  show ?case by simp
next
  case (4 name propSchema rest)
  then show ?case by (auto split: sum.splits)
qed

lemma convertSchema_type_entry:
  "convertSchema (Some s) = Inr result \<Longrightarrow>
   map_of result ''type'' =
     (if schema_Type s = TypeUnspecified then None
      else Some (AnyString (schemaTypeToString (schema_Type s))))"
  by (cases s) (auto simp: Let_def split: if_splits sum.splits option.splits)

text \<open>
  Claim C6, as stated: the schema converter maps an unspecified type tag to the type
  string \<open>string\<close>. It fails: for a schema whose tag is \<open>TypeUnspecified\<close> the converter
  writes no type at all.
\<close>

theorem convertSchema_unspecified_counterexample:
  "convertSchema (Some (Schema TypeUnspecified '''' [] [] [] None)) = Inr []
   \<and> convertSchema (Some (Schema TypeUnspecified '''' [] [] [] None))
       \<noteq> Inr [(''type'', AnyString ''string'')]"
  by simp

text \<open>
  Claim C6, amended. A nil schema converts to the empty object schema. The type-tag
  helper \<open>schemaTypeToString\<close> maps the six known tags to their names and every other
  tag, \<open>TypeUnspecified\<close> included, to \<open>string\<close>. The converter never fails, and the type
  it writes for a schema is the helper's string for its tag, except for the tag
  \<open>TypeUnspecified\<close>, where it writes no type.
\<close>

theorem convertSchema_nil_and_types:
  "convertSchema None = Inr [(''type'', AnyString ''object''), (''properties'', AnyMap [])]
   \<and> schemaTypeToString t =
       (if t = TypeString then ''string'' else if t = TypeNumber then ''number''
        else if t = TypeInteger then ''integer'' else if t = TypeBoolean then ''boolean''
        else if t = TypeArray then ''array'' else if t = TypeObject then ''object''
        else ''string'')
   \<and> schemaTypeToString TypeUnspecified = ''string''
   \<and> (\<exists>result. convertSchema (Some s) = Inr result
         \<and> map_of result ''type'' =
             (if schema_Type s = TypeUnspecified then None
              else Some (AnyString (schemaTypeToString (schema_Type s)))))"
proof (intro conjI)
  show "convertSchema None = Inr [(''type'', AnyString ''object''), (''properties'', AnyMap [])]"
    by simp
  show "schemaTypeToString t =
       (if t = TypeString then ''string'' else if t = TypeNumber then ''number''
        else if t = TypeInteger then ''integer'' else if t = TypeBoolean then ''boolean''
        else if t = TypeArray then ''array'' else if t = TypeObject then ''object''
        else ''string'')"
    by (simp add: schemaTypeToString_def)
  show "schemaTypeToString TypeUnspecified = ''string''"
    by (simp add: schemaTypeToString_def TypeUnspecified_def TypeString_def TypeNumber_def
        TypeInteger_def TypeBoolean_def TypeArray_def TypeObject_def)
  obtain result where r: "convertSchema (Some s) = Inr result"
    using convert_never_fails(1) by blast
  with convertSchema_type_entry [OF r]
  show "\<exists>result. convertSchema (Some s) = Inr result
         \<and> map_of result ''type'' =
             (if schema_Type s = TypeUnspecified then None
              else Some (AnyString (schemaTypeToString (schema_Type s))))"
    by blast
qed

section \<open>History repair\<close>

lemma keptBlock_simps:
  "keptBlock ids (OfToolUse tid name input) = (tid \<in> set ids)"
  "keptBlock ids (OfText t) = True"
  "keptBlock ids (OfImage mt d) = True"
  "keptBlock ids (OfToolResult rid c e) = True"
  by (simp_all add: keptBlock_def)

lemma lookupBool_matchedIDsOf: "lookupBool (matchedIDsOf ids) tid = (tid \<in> set ids)"
  by (induction ids) (auto simp: lookupBool_def)

lemma filterToolUse_blocks_Some:
  "filterToolUse_blocks (Some (matchedIDsOf ids)) blocks = filter (keptBlock ids) blocks"
  by (induction blocks rule: extractToolUseIDs_blocks.induct)
    (simp_all add: keptBlock_simps lookupBool_matchedIDsOf)

lemma filterToolUse_blocks_None:
  "filterToolUse_blocks None blocks = filter (keptBlock []) blocks"
  by (induction blocks rule: extractToolUseIDs_blocks.induct) (simp_all add: keptBlock_simps)

lemma kept_toolUseIDs:
  "set (extractToolUseIDs_blocks (filter (keptBlock ids) blocks)) \<subseteq> set ids"
  by (induction blocks rule: extractToolUseIDs_blocks.induct) (simp_all add: keptBlock_simps)

lemma kept_none_toolUseIDs: "extractToolUseIDs_blocks (filter (keptBlock []) blocks) = []"
  using kept_toolUseIDs [of "[]" blocks] by simp

lemma repair_paired_next:
  assumes "msg_Role msg = MessageParamRoleAssistant" "extractToolUseIDs msg \<noteq> []"
    "msg_Role next = MessageParamRoleUser"
  shows "repairMessageHistory (msg # next # rest) =
       (let kept = filter (keptBlock (extractToolResultIDs next)) (msg_Content msg)
        in (if kept = [] then [] else [\<lparr>msg_Role = MessageParamRoleAssistant, msg_Content = kept\<rparr>])
           @ next # repairMessageHistory rest)"
  using assms
  by (simp add: Let_def filterToolUse_def hasContent_def filterToolUse_blocks_Some)

lemma repair_unpaired:
  assumes "msg_Role msg = MessageParamRoleAssistant" "extractToolUseIDs msg \<noteq> []"
    "rest = [] \<or> msg_Role (hd rest) \<noteq> MessageParamRoleUser"
  shows "repairMessageHistory (msg # rest) =
       (let kept = filter (keptBlock []) (msg_Content msg)
        in (if kept = [] then [] else [\<lparr>msg_Role = MessageParamRoleAssistant, msg_Content = kept\<rparr>])
           @ repairMessageHistory rest)"
  using assms
  by (auto simp: Let_def filterToolUse_def hasContent_def filterToolUse_blocks_None)

lemma repair_passthrough:
  "msg_Role msg \<noteq> MessageParamRoleAssistant \<or> extractToolUseIDs msg = [] \<Longrightarrow>
   repairMessageHistory (msg # rest) = msg # repairMessageHistory rest"
  by auto

lemma repair_result_paired: "assistantToolUsePaired (repairMessageHistory messages)"
proof (induction messages)
  case Nil
  show ?case by simp
next
  case (Cons msg messages)
  show ?case
  proof (cases "msg_Role msg = MessageParamRoleAssistant \<and> extractToolUseIDs msg \<noteq> []")
    case False
    then have "repairMessageHistory (msg # messages) = msg # repairMessageHistory messages"
      using repair_passthrough by blast
    moreover have "msg_Role msg \<noteq> MessageParamRoleAssistant
                   \<or> list_all (\<lambda>tid. repairMessageHistory messages \<noteq> []
                          \<and> msg_Role (hd (repairMessageHistory messages)) = MessageParamRoleUser
                          \<and> tid \<in> set (extractToolResultIDs (hd (repairMessageHistory messages))))
                        (extractToolUseIDs msg)"
      using False by auto
    ultimately show ?thesis using Cons.IH by simp
  next
    case True
    note bearing = this
    show ?thesis
    proof (cases "messages \<noteq> [] \<and> msg_Role (hd messages) = MessageParamRoleUser")
      case True
      then obtain "next" rest where m: "messages = next # rest"
        and u: "msg_Role next = MessageParamRoleUser"
        by (cases messages) auto
      have tail: "repairMessageHistory messages = next # repairMessageHistory rest"
        using m u by simp
      have eq: "repairMessageHistory (msg # messages) =
          (let kept = filter (keptBlock (extractToolResultIDs next)) (msg_Content msg)
           in (if kept = [] then [] else [\<lparr>msg_Role = MessageParamRoleAssistant, msg_Content = kept\<rparr>])
              @ next # repairMessageHistory rest)"
        unfolding m using bearing u by (intro repair_paired_next) auto
      have ids: "list_all (\<lambda>tid. tid \<in> set (extractToolResultIDs next))
                   (extractToolUseIDs_blocks
                      (filter (keptBlock (extractToolResultIDs next)) (msg_Content msg)))"
        using kept_toolUseIDs [of "extractToolResultIDs next" "msg_Content msg"]
        by (auto simp: list_all_iff)
      show ?thesis
        using Cons.IH ids u unfolding eq tail
        by (simp add: Let_def extractToolUseIDs_def)
    next
      case False
      then have eq: "repairMessageHistory (msg # messages) =
          (let kept = filter (keptBlock []) (msg_Content msg)
           in (if kept = [] then [] else [\<lparr>msg_Role = MessageParamRoleAssistant, msg_Content = kept\<rparr>])
              @ repairMessageHistory messages)"
        using bearing by (intro repair_unpaired) auto
      show ?thesis
        using Cons.IH unfolding eq
        by (simp add: Let_def extractToolUseIDs_def kept_none_toolUseIDs)
    qed
  qed
qed

text \<open>
  A user-role message with a tool-use block is an assembled message: the request builder
  makes one from a user-role content that carries a function call.
\<close>

lemma example_user_tool_use_assembled:
  "convertContents exampleLib []
     [\<lparr>content_Role = ''user'',
       content_Parts = [functionCallPart \<lparr>fc_ID = ''a'', fc_Name = ''get_weather'', fc_Args = []\<rparr>]\<rparr>]
   = Inr [exampleUser [OfToolUse ''a'' ''get_weather'' ''{}'']]"
  by (simp add: convertContentToMessage_def functionCallPart_def exampleLib_def
      convertRoleToAnthropic_def sanitizeToolID_def anthropicToolIDPattern_def isToolIDChar_def
      convertToolInputToRaw_def exampleMarshal_def exampleUser_def emptyJSONObject_def)

text \<open>
  Claim C2, as stated: in the repaired list every remaining tool use has a paired tool
  result in the next message. It fails for a tool use in a user-role message: repair
  looks at assistant messages only, and the message passes through as it is.
\<close>

theorem repairMessageHistory_counterexample:
  "\<not> toolUsePaired (repairMessageHistory [exampleUser [OfToolUse ''a'' ''get_weather'' ''{}'']])"
  by (simp add: exampleUser_def extractToolUseIDs_def)

text \<open>
  Claim C2, amended. Repair is one pass from left to right. An assistant message with
  tool-use blocks that is followed by a user message keeps its other blocks and exactly
  the tool-use blocks whose IDs are among that user message's tool-result IDs, and the
  user message follows unchanged; an assistant message with tool-use blocks and no user
  message right after it loses all of them; in both cases the message is dropped when no
  block is left. Every other message, so every message without tool use and every
  user-role message, passes through unchanged. In the result every tool use that remains
  in an assistant message has its tool result in the next message, a user message.
\<close>

theorem repairMessageHistory_pairing:
  "(msg_Role msg = MessageParamRoleAssistant \<and> extractToolUseIDs msg \<noteq> []
      \<and> msg_Role next = MessageParamRoleUser \<longrightarrow>
      repairMessageHistory (msg # next # rest) =
        (let kept = filter (keptBlock (extractToolResultIDs next)) (msg_Content msg)
         in (if kept = [] then []
             else [\<lparr>msg_Role = MessageParamRoleAssistant, msg_Content = kept\<rparr>])
            @ next # repairMessageHistory rest))
   \<and> (msg_Role msg = MessageParamRoleAssistant \<and> extractToolUseIDs msg \<noteq> []
        \<and> (messages = [] \<or> msg_Role (hd messages) \<noteq> MessageParamRoleUser) \<longrightarrow>
        repairMessageHistory (msg # messages) =
          (let kept = filter (keptBlock []) (msg_Content msg)
           in (if kept = [] then []
               else [\<lparr>msg_Role = MessageParamRoleAssistant, msg_Content = kept\<rparr>])
              @ repairMessageHistory messages)
        \<and> extractToolUseIDs_blocks (filter (keptBlock []) (msg_Content msg)) = [])
   \<and> (msg_Role msg \<noteq> MessageParamRoleAssistant \<or> extractToolUseIDs msg = [] \<longrightarrow>
        repairMessageHistory (msg # messages) = msg # repairMessageHistory messages)
   \<and> assistantToolUsePaired (repairMessageHistory messages)"
  using repair_paired_next [of msg "next" rest] repair_unpaired [of msg messages]
    repair_passthrough [of msg messages] repair_result_paired [of messages]
    kept_none_toolUseIDs [of "msg_Content msg"]
  by blast

theorem repairMessageHistory_pairing_witness:
  "repairMessageHistory
      [exampleAssistant [OfToolUse ''a'' ''f'' ''{}'', OfToolUse ''b'' ''g'' ''{}''],
       exampleUser [OfToolResult ''a'' ''1'' False]]
     = [exampleAssistant [OfToolUse ''a'' ''f'' ''{}''],
        exampleUser [OfToolResult ''a'' ''1'' False]]
   \<and> repairMessageHistory
        [exampleAssistant [OfToolUse ''a'' ''f'' ''{}'', OfToolUse ''b'' ''g'' ''{}'']] = []
   \<and> repairMessageHistory
        [exampleAssistant [OfText ''hi'', OfToolUse ''a'' ''f'' ''{}'']]
       = [exampleAssistant [OfText ''hi'']]
   \<and> repairMessageHistory [exampleUser [OfText ''hi'']] = [exampleUser [OfText ''hi'']]
   \<and> assistantToolUsePaired
        [exampleAssistant [OfToolUse ''a'' ''f'' ''{}''],
         exampleUser [OfToolResult ''a'' ''1'' False]]"
proof -
  let ?ab = "exampleAssistant [OfToolUse ''a'' ''f'' ''{}'', OfToolUse ''b'' ''g'' ''{}'']"
  let ?u = "exampleUser [OfToolResult ''a'' ''1'' False]"
  let ?t = "exampleAssistant [OfText ''hi'', OfToolUse ''a'' ''f'' ''{}'']"
  let ?h = "exampleUser [OfText ''hi'']"
  have hyp1: "msg_Role ?ab = MessageParamRoleAssistant \<and> extractToolUseIDs ?ab \<noteq> []
              \<and> msg_Role ?u = MessageParamRoleUser"
    by (simp add: exampleAssistant_def exampleUser_def extractToolUseIDs_def)
  have hyp2: "msg_Role ?ab = MessageParamRoleAssistant \<and> extractToolUseIDs ?ab \<noteq> []
              \<and> (([] :: MessageParam list) = [] \<or> msg_Role (hd []) \<noteq> MessageParamRoleUser)"
    by (simp add: exampleAssistant_def extractToolUseIDs_def)
  have hyp3: "msg_Role ?t = MessageParamRoleAssistant \<and> extractToolUseIDs ?t \<noteq> []
              \<and> (([] :: MessageParam list) = [] \<or> msg_Role (hd []) \<noteq> MessageParamRoleUser)"
    by (simp add: exampleAssistant_def extractToolUseIDs_def)
  have hyp4: "msg_Role ?h \<noteq> MessageParamRoleAssistant \<or> extractToolUseIDs ?h = []"
    by (simp add: exampleUser_def)
  have r1: "repairMessageHistory [?ab, ?u] = [exampleAssistant [OfToolUse ''a'' ''f'' ''{}''], ?u]"
    using repairMessageHistory_pairing [of ?ab ?u "[]" "[]"] hyp1
    by (simp add: exampleAssistant_def exampleUser_def extractToolResultIDs_def keptBlock_simps)
  have r2: "repairMessageHistory [?ab] = []"
    using repairMessageHistory_pairing [of ?ab ?u "[]" "[]"] hyp2
    by (simp add: exampleAssistant_def keptBlock_simps)
  have r3: "repairMessageHistory [?t] = [exampleAssistant [OfText ''hi'']]"
    using repairMessageHistory_pairing [of ?t ?u "[]" "[]"] hyp3
    by (simp add: exampleAssistant_def keptBlock_simps)
  have r4: "repairMessageHistory [?h] = [?h]"
    using repairMessageHistory_pairing [of ?h ?u "[]" "[]"] hyp4
    by simp
  have r5: "assistantToolUsePaired [exampleAssistant [OfToolUse ''a'' ''f'' ''{}''], ?u]"
    using repairMessageHistory_pairing [of ?ab ?u "[]" "[?ab, ?u]"] unfolding r1
    by blast
  from r1 r2 r3 r4 r5 show ?thesis by blast
qed

section \<open>Response conversion\<close>

lemma parseJSONArgs_malformed: "json_Unmarshal L s = Inl e \<Longrightarrow> parseJSONArgs L s = []"
  by (simp add: parseJSONArgs_def)

lemma convertToolInput_malformed:
  "json_Unmarshal L s = Inl e \<Longrightarrow> convertToolInput L (AnyRawMessage s) = []"
  by (simp add: convertToolInput_def)

lemma convertBlocks_member:
  "ToolUseBlock tid name input \<in> set blocks \<Longrightarrow>
   functionCallPart \<lparr>fc_ID = tid, fc_Name = name, fc_Args = convertToolInput L input\<rparr>
     \<in> set (convertBlocks L blocks)"
  by (induction L blocks rule: convertBlocks.induct) auto

text \<open>
  Claim C8: a tool call whose argument payload the JSON decoder rejects is converted to a
  function-call part with an empty argument map, and the conversion of the response
  succeeds. It holds for the two argument parsers, for the completed response of either
  vendor and for the final response of a Chat-Completions stream.
\<close>

theorem malformed_arguments_empty_map:
  "(json_Unmarshal L s = Inl e \<longrightarrow>
      parseJSONArgs L s = [] \<and> convertToolInput L (AnyRawMessage s) = [])
   \<and> (json_Unmarshal L (tc_Function_Arguments tc) = Inl e \<and> cc_Choices resp = choice # choices
        \<and> tc \<in> set (cm_ToolCalls (choice_Message choice)) \<longrightarrow>
        (\<exists>r. openai_convertResponse L resp = Inr r
           \<and> functionCallPart \<lparr>fc_ID = tc_ID tc, fc_Name = tc_Function_Name tc, fc_Args = []\<rparr>
               \<in> set (content_Parts (resp_Content r))))
   \<and> (json_Unmarshal L (tc_Function_Arguments tc) = Inl e \<and> cc_Choices resp = choice # choices
        \<and> tc \<in> set (cm_ToolCalls (choice_Message choice)) \<longrightarrow>
        functionCallPart \<lparr>fc_ID = tc_ID tc, fc_Name = tc_Function_Name tc, fc_Args = []\<rparr>
          \<in> set (content_Parts (resp_Content (buildStreamFinalResponse L resp))))
   \<and> (json_Unmarshal L s = Inl e
        \<and> ToolUseBlock tid name (AnyRawMessage s) \<in> set (message_Content msg) \<longrightarrow>
        (\<exists>r. anthropic_convertResponse L msg = Inr r
           \<and> functionCallPart \<lparr>fc_ID = tid, fc_Name = name, fc_Args = []\<rparr>
               \<in> set (content_Parts (resp_Content r))))"
proof (intro conjI impI)
  assume "json_Unmarshal L s = Inl e"
  then show "parseJSONArgs L s = []" by (rule parseJSONArgs_malformed)
next
  assume "json_Unmarshal L s = Inl e"
  then show "convertToolInput L (AnyRawMessage s) = []" by (rule convertToolInput_malformed)
next
  assume a: "json_Unmarshal L (tc_Function_Arguments tc) = Inl e \<and> cc_Choices resp = choice # choices
        \<and> tc \<in> set (cm_ToolCalls (choice_Message choice))"
  then have "toolCallPart L tc
      = functionCallPart \<lparr>fc_ID = tc_ID tc, fc_Name = tc_Function_Name tc, fc_Args = []\<rparr>"
    by (simp add: toolCallPart_def parseJSONArgs_malformed)
  moreover have "toolCallPart L tc \<in> set (choiceParts L choice)"
    using a by (simp add: choiceParts_def)
  ultimately show "\<exists>r. openai_convertResponse L resp = Inr r
           \<and> functionCallPart \<lparr>fc_ID = tc_ID tc, fc_Name = tc_Function_Name tc, fc_Args = []\<rparr>
               \<in> set (content_Parts (resp_Content r))"
    using a by (simp add: openai_convertResponse_def)
next
  assume a: "json_Unmarshal L (tc_Function_Arguments tc) = Inl e \<and> cc_Choices resp = choice # choices
        \<and> tc \<in> set (cm_ToolCalls (choice_Message choice))"
  then have "toolCallPart L tc
      = functionCallPart \<lparr>fc_ID = tc_ID tc, fc_Name = tc_Function_Name tc, fc_Args = []\<rparr>"
    by (simp add: toolCallPart_def parseJSONArgs_malformed)
  moreover have "toolCallPart L tc \<in> set (choiceParts L choice)"
    using a by (simp add: choiceParts_def)
  ultimately show "functionCallPart \<lparr>fc_ID = tc_ID tc, fc_Name = tc_Function_Name tc, fc_Args = []\<rparr>
          \<in> set (content_Parts (resp_Content (buildStreamFinalResponse L resp)))"
    using a by (simp add: buildStreamFinalResponse_def)
next
  assume a: "json_Unmarshal L s = Inl e
        \<and> ToolUseBlock tid name (AnyRawMessage s) \<in> set (message_Content msg)"
  then have "functionCallPart \<lparr>fc_ID = tid, fc_Name = name,
                                fc_Args = convertToolInput L (AnyRawMessage s)\<rparr>
             \<in> set (convertBlocks L (message_Content msg))"
    by (intro convertBlocks_member) simp
  then show "\<exists>r. anthropic_convertResponse L msg = Inr r
           \<and> functionCallPart \<lparr>fc_ID = tid, fc_Name = name, fc_Args = []\<rparr>
               \<in> set (content_Parts (resp_Content r))"
    using a by (simp add: anthropic_convertResponse_def convertToolInput_malformed Let_def)
qed

theorem malformed_arguments_empty_map_witness:
  "json_Unmarshal exampleLib ''not json''
     = Inl (LibraryError ''invalid character o in literal null (expecting u)'')
   \<and> parseJSONArgs exampleLib ''not json'' = []
   \<and> convertToolInput exampleLib (AnyRawMessage ''not json'') = []
   \<and> openai_convertResponse exampleLib exampleCompletion
       = Inr \<lparr>resp_Content =
                \<lparr>content_Role = ''model'',
                 content_Parts = [functionCallPart \<lparr>fc_ID = ''call_1'', fc_Name = ''get_weather'',
                                                     fc_Args = []\<rparr>]\<rparr>,
              resp_UsageMetadata = None, resp_FinishReason = FinishReasonStop,
              resp_Partial = False, resp_TurnComplete = True\<rparr>
   \<and> anthropic_convertResponse exampleLib exampleToolUseMessage
       = Inr \<lparr>resp_Content =
                \<lparr>content_Role = ''model'',
                 content_Parts = [functionCallPart \<lparr>fc_ID = ''toolu_1'', fc_Name = ''get_weather'',
                                                     fc_Args = []\<rparr>]\<rparr>,
              resp_UsageMetadata = None, resp_FinishReason = FinishReasonStop,
              resp_Partial = False, resp_TurnComplete = True\<rparr>"
proof -
  let ?e = "LibraryError ''invalid character o in literal null (expecting u)''"
  have u: "json_Unmarshal exampleLib ''not json'' = Inl ?e"
    by (simp add: exampleLib_def exampleUnmarshal_def)
  note T = malformed_arguments_empty_map
             [of exampleLib "''not json''" ?e exampleToolCall exampleCompletion
                 "hd (cc_Choices exampleCompletion)" "[]" "''toolu_1''" "''get_weather''"
                 exampleToolUseMessage]
  have p: "parseJSONArgs exampleLib ''not json'' = []"
    and c: "convertToolInput exampleLib (AnyRawMessage ''not json'') = []"
    using T u by blast+
  have o: "openai_convertResponse exampleLib exampleCompletion
       = Inr \<lparr>resp_Content =
                \<lparr>content_Role = ''model'',
                 content_Parts = [functionCallPart \<lparr>fc_ID = ''call_1'', fc_Name = ''get_weather'',
                                                     fc_Args = []\<rparr>]\<rparr>,
              resp_UsageMetadata = None, resp_FinishReason = FinishReasonStop,
              resp_Partial = False, resp_TurnComplete = True\<rparr>"
    using p
    by (simp add: openai_convertResponse_def exampleCompletion_def choiceParts_def
        toolCallPart_def exampleToolCall_def convertUsageMetadata_def convertFinishReason_def
        RoleModel_def)
  have a: "anthropic_convertResponse exampleLib exampleToolUseMessage
       = Inr \<lparr>resp_Content =
                \<lparr>content_Role = ''model'',
                 content_Parts = [functionCallPart \<lparr>fc_ID = ''toolu_1'', fc_Name = ''get_weather'',
                                                     fc_Args = []\<rparr>]\<rparr>,
              resp_UsageMetadata = None, resp_FinishReason = FinishReasonStop,
              resp_Partial = False, resp_TurnComplete = True\<rparr>"
    using c
    by (simp add: anthropic_convertResponse_def exampleToolUseMessage_def convertStopReason_def
        StopReasonEndTurn_def StopReasonMaxTokens_def StopReasonStopSequence_def
        StopReasonToolUse_def RoleModel_def)
  from u p c o a show ?thesis by blast
qed

lemma convertResponse_empty_lists:
  "openai_convertResponse L (resp\<lparr>cc_Choices := []\<rparr>) = Inl ErrNoChoicesInResponse
   \<and> anthropic_convertResponse L msg \<noteq> Inl err
   \<and> (\<exists>r. anthropic_convertResponse L (msg\<lparr>message_Content := []\<rparr>) = Inr r
          \<and> content_Parts (resp_Content r) = [] \<and> resp_TurnComplete r)"
  by (simp add: openai_convertResponse_def anthropic_convertResponse_def Let_def)

text \<open>
  Claim C5: an empty choice list or an empty content list makes response conversion fail.
  The Chat-Completions converter does fail, with \<open>ErrNoChoicesInResponse\<close>
  (\<open>convertResponse_empty_lists\<close>). The Messages converter declares
  \<open>ErrNoContentInResponse\<close> and never returns it: a message with an empty content list
  converts to a turn-complete response with no parts.
\<close>

theorem anthropic_convertResponse_empty_content:
  "anthropic_convertResponse exampleLib
     \<lparr>message_Content = [], message_StopReason = ''end_turn'',
      message_Usage = \<lparr>usage_InputTokens = 12, usage_OutputTokens = 0\<rparr>\<rparr>
   = Inr \<lparr>resp_Content = \<lparr>content_Role = ''model'', content_Parts = []\<rparr>,
          resp_UsageMetadata = Some \<lparr>PromptTokenCount = 12, CandidatesTokenCount = 0,
                                     TotalTokenCount = 12\<rparr>,
          resp_FinishReason = FinishReasonStop, resp_Partial = False,
          resp_TurnComplete = True\<rparr>"
  by (simp add: anthropic_convertResponse_def convertStopReason_def StopReasonEndTurn_def
      RoleModel_def word_sless_alt)

section \<open>Request builder of the Messages adapter: max tokens\<close>

lemma sint_scast_32_64: "sint (scast (x :: 32 word) :: 64 word) = sint x"
  by (rule sint_up_scast) (simp add: is_up)

lemma anthropic_convertTools_ok: "\<exists>tools. anthropic_convertTools genaiTools = Inr tools"
  by (induction genaiTools rule: anthropic_convertTools.induct) auto

lemma buildMessageParams_MaxTokens:
  "buildMessageParams L m req = Inr params \<Longrightarrow>
   params_MaxTokens params =
     (case req_Config req of
        None \<Rightarrow> 4096
      | Some cfg \<Rightarrow>
          if 0 <s cfg_MaxOutputTokens cfg then scast (cfg_MaxOutputTokens cfg) else 4096)"
  unfolding buildMessageParams_def Let_def
  by (auto split: option.splits sum.splits if_splits)

lemma buildMessageParams_succeeds:
  "(\<exists>params. buildMessageParams L m req = Inr params)
   = (\<exists>messages. convertContents L [] (req_Contents req) = Inr messages)"
proof (cases "convertContents L [] (req_Contents req)")
  case (Inl err)
  then show ?thesis by (simp add: buildMessageParams_def Let_def)
next
  case (Inr messages)
  show ?thesis
  proof (cases "req_Config req")
    case None
    with Inr show ?thesis by (simp add: buildMessageParams_def Let_def)
  next
    case (Some cfg)
    obtain tools where "anthropic_convertTools (cfg_Tools cfg) = Inr tools"
      using anthropic_convertTools_ok by blast
    with Inr Some show ?thesis by (simp add: buildMessageParams_def Let_def)
  qed
qed

text \<open>
  Claim C10: the parameters the Messages-style builder returns always carry a max-tokens
  value: 4096 when the request has no configuration or its \<open>MaxOutputTokens\<close> is not
  positive, and the caller's value otherwise. The builder returns parameters exactly when
  the conversion of the contents succeeds; its only other outcome is that conversion's
  error.
\<close>

theorem buildMessageParams_max_tokens:
  "(buildMessageParams L m req = Inr params \<longrightarrow>
      sint (params_MaxTokens params) =
        (case req_Config req of
           None \<Rightarrow> 4096
         | Some cfg \<Rightarrow>
             if 0 < sint (cfg_MaxOutputTokens cfg) then sint (cfg_MaxOutputTokens cfg)
             else 4096))
   \<and> ((\<exists>params. buildMessageParams L m req = Inr params)
        = (\<exists>messages. convertContents L [] (req_Contents req) = Inr messages))"
proof (intro conjI impI)
  assume "buildMessageParams L m req = Inr params"
  from buildMessageParams_MaxTokens [OF this]
  show "sint (params_MaxTokens params) =
        (case req_Config req of
           None \<Rightarrow> 4096
         | Some cfg \<Rightarrow>
             if 0 < sint (cfg_MaxOutputTokens cfg) then sint (cfg_MaxOutputTokens cfg)
             else 4096)"
    by (simp add: word_sless_alt sint_scast_32_64 split: option.splits)
next
  show "(\<exists>params. buildMessageParams L m req = Inr params)
        = (\<exists>messages. convertContents L [] (req_Contents req) = Inr messages)"
    by (rule buildMessageParams_succeeds)
qed

lemma example_build:
  "buildMessageParams exampleLib \<lparr>a_modelName = ''claude''\<rparr> (exampleRequest None)
     = Inr (exampleParams 4096)"
  "buildMessageParams exampleLib \<lparr>a_modelName = ''claude''\<rparr>
       (exampleRequest (Some (exampleConfig 1000)))
     = Inr (exampleParams 1000)"
  "buildMessageParams exampleLib \<lparr>a_modelName = ''claude''\<rparr>
       (exampleRequest (Some (exampleConfig (- 1))))
     = Inr (exampleParams 4096)"
  by (simp_all add: buildMessageParams_def exampleRequest_def exampleConfig_def
      exampleParams_def convertContentToMessage_def textPart_def convertRoleToAnthropic_def
      exampleUser_def word_sless_alt)

theorem buildMessageParams_max_tokens_witness:
  "buildMessageParams exampleLib \<lparr>a_modelName = ''claude''\<rparr> (exampleRequest None)
     = Inr (exampleParams 4096)
   \<and> sint (params_MaxTokens (exampleParams 4096)) = 4096
   \<and> buildMessageParams exampleLib \<lparr>a_modelName = ''claude''\<rparr>
       (exampleRequest (Some (exampleConfig 1000)))
     = Inr (exampleParams 1000)
   \<and> sint (params_MaxTokens (exampleParams 1000)) = 1000
   \<and> buildMessageParams exampleLib \<lparr>a_modelName = ''claude''\<rparr>
       (exampleRequest (Some (exampleConfig (- 1))))
     = Inr (exampleParams 4096)"
proof -
  note A = buildMessageParams_max_tokens
             [of exampleLib "\<lparr>a_modelName = ''claude''\<rparr>" "exampleRequest None"
                 "exampleParams 4096"]
  note B = buildMessageParams_max_tokens
             [of exampleLib "\<lparr>a_modelName = ''claude''\<rparr>"
                 "exampleRequest (Some (exampleConfig 1000))" "exampleParams 1000"]
  have a: "sint (params_MaxTokens (exampleParams 4096)) = 4096"
    using A example_build(1) by (simp add: exampleRequest_def)
  have b: "sint (params_MaxTokens (exampleParams 1000)) = 1000"
    using B example_build(2) by (simp add: exampleRequest_def exampleConfig_def)
  from example_build a b show ?thesis by blast
qed

section \<open>Stream aggregation\<close>

lemma partialItems_Nil: "partialItems [] = []"
  by (simp add: partialItems_def)

lemma partialItems_Cons:
  "partialItems (d # ds) =
     (if d \<noteq> '''' then [(Some (partialResponse d), None)] else []) @ partialItems ds"
  by (simp add: partialItems_def)

lemma partialResponse_flags:
  "resp_Partial (partialResponse text)" "\<not> resp_TurnComplete (partialResponse text)"
  by (simp_all add: partialResponse_def)


lemma openai_loop_all:
  "openai_streamLoop S (\<lambda>out. True) acc out chunks
   = (out @ partialItems (map chunkDelta chunks),
      Some (foldl (Accumulator_AddChunk S) acc chunks))"
proof (induction chunks arbitrary: acc out)
  case Nil
  show ?case by (simp add: partialItems_Nil)
next
  case (Cons chunk chunks)
  show ?case
    by (simp add: Cons.IH partialItems_Cons chunkDelta_def Let_def)
qed

lemma openai_loop_notFinal:
  "list_all notFinal out \<Longrightarrow> list_all notFinal (fst (openai_streamLoop S yield acc out chunks))"
proof (induction chunks arbitrary: acc out)
  case Nil
  then show ?case by simp
next
  case (Cons chunk chunks)
  then show ?case
    by (simp add: Let_def partialResponse_flags)
qed

lemma eventDelta_simps:
  "eventDelta (ContentBlockDeltaEvent index (TextDelta text)) = text"
  "eventDelta (ContentBlockDeltaEvent index (InputJSONDelta js)) = ''''"
  "eventDelta (ContentBlockDeltaEvent index OtherDelta) = ''''"
  "eventDelta (MessageStartEvent msg) = ''''"
  "eventDelta (ContentBlockStartEvent index block) = ''''"
  "eventDelta (ContentBlockStopEvent index) = ''''"
  "eventDelta (MessageDeltaEvent stop usage) = ''''"
  "eventDelta MessageStopEvent = ''''"
  by (simp_all add: eventDelta_def)

lemma anthropic_loop_step:
  "Message_Accumulate A message event = Inr message' \<Longrightarrow>
   anthropic_streamLoop A (\<lambda>out. True) message out (event # events)
   = anthropic_streamLoop A (\<lambda>out. True) message'
       (out @ partialItems [eventDelta event]) events"
proof (cases event)
  case (ContentBlockDeltaEvent index delta)
  assume "Message_Accumulate A message event = Inr message'"
  then show ?thesis
    using ContentBlockDeltaEvent
    by (cases delta) (simp_all add: eventDelta_simps partialItems_Cons partialItems_Nil)
qed (simp_all add: eventDelta_simps partialItems_Cons partialItems_Nil)

lemma anthropic_loop_all:
  "accumulateAll A message events = Inr message' \<Longrightarrow>
   anthropic_streamLoop A (\<lambda>out. True) message out events
   = (out @ partialItems (map eventDelta events), Some message')"
proof (induction events arbitrary: message out)
  case Nil
  then show ?case by (simp add: partialItems_Nil)
next
  case (Cons event events)
  from Cons.prems obtain message1 where
    step: "Message_Accumulate A message event = Inr message1"
    and rest: "accumulateAll A message1 events = Inr message'"
    by (auto split: sum.splits)
  show ?case
    unfolding anthropic_loop_step [OF step] Cons.IH [OF rest]
    by (simp add: partialItems_Cons [of "eventDelta event" "map eventDelta events"]
        partialItems_Cons [of "eventDelta event" "[]"] partialItems_Nil)
qed

lemma anthropic_loop_notFinal:
  "list_all notFinal out \<Longrightarrow>
   list_all notFinal (fst (anthropic_streamLoop A yield message out events))"
proof (induction events arbitrary: message out)
  case Nil
  then show ?case by simp
next
  case (Cons event events)
  show ?case
  proof (cases "Message_Accumulate A message event")
    case (Inl err)
    then show ?thesis using Cons.prems by simp
  next
    case (Inr message1)
    note acc = this
    show ?thesis
    proof (cases event)
      case (ContentBlockDeltaEvent index delta)
      then show ?thesis
        using acc Cons.prems Cons.IH
        by (cases delta) (simp_all add: Let_def partialResponse_flags)
    qed (use acc Cons.prems Cons.IH in simp_all)
  qed
qed







lemma example_chat_build:
  "buildChatCompletionParams exampleLib (New ''gpt-4o'') (exampleRequest None)
   = (Inr exampleChatParams, New ''gpt-4o'')"
  by (simp add: buildChatCompletionParams_def exampleRequest_def convertContentToMessages_def
      textPart_def buildRoleMessage_def convertRole_def buildUserMessage_def joinTexts_def
      exampleChatParams_def New_def)



text \<open>
  The example accumulator appends: on every list of chunks its accumulated text is the
  concatenation of the chunks' deltas.
\<close>

lemma exampleAddChunk_appends:
  "accumulatedText (foldl exampleAddChunk acc chunks)
   = accumulatedText acc @ concat (map chunkDelta chunks)"
proof (induction chunks arbitrary: acc)
  case Nil
  show ?case by simp
next
  case (Cons chunk chunks)
  have "accumulatedText (exampleAddChunk acc chunk) = accumulatedText acc @ chunkDelta chunk"
    by (cases "chunk_Choices chunk")
      (simp_all add: exampleAddChunk_def chunkDelta_def accumulatedText_def)
  then show ?case by (simp add: Cons.IH)
qed






lemma openai_stream_notFinal:
  "Completions_NewStreaming S params = (chunks, Some err) \<Longrightarrow>
   buildChatCompletionParams L m req = (Inr params, m') \<Longrightarrow>
   list_all notFinal (fst (openai_generateStream L S m req yield))"
proof -
  assume a: "Completions_NewStreaming S params = (chunks, Some err)"
    and b: "buildChatCompletionParams L m req = (Inr params, m')"
  obtain out r where l: "openai_streamLoop S yield emptyAccumulator [] chunks = (out, r)"
    by (cases "openai_streamLoop S yield emptyAccumulator [] chunks")
  have "list_all notFinal (fst (openai_streamLoop S yield emptyAccumulator [] chunks))"
    by (rule openai_loop_notFinal) simp
  then have "list_all notFinal out" using l by simp
  then show ?thesis
    using a b l by (cases r) (simp_all add: openai_generateStream_def)
qed

lemma anthropic_stream_notFinal:
  "Messages_NewStreaming A params = (events, Some err) \<Longrightarrow>
   buildMessageParams L m req = Inr params \<Longrightarrow>
   list_all notFinal (anthropic_generateStream L A m req yield)"
proof -
  assume a: "Messages_NewStreaming A params = (events, Some err)"
    and b: "buildMessageParams L m req = Inr params"
  obtain out r where l: "anthropic_streamLoop A yield emptyMessage [] events = (out, r)"
    by (cases "anthropic_streamLoop A yield emptyMessage [] events")
  have "list_all notFinal (fst (anthropic_streamLoop A yield emptyMessage [] events))"
    by (rule anthropic_loop_notFinal) simp
  then have "list_all notFinal out" using l by simp
  then show ?thesis
    using a b l by (cases r) (simp_all add: anthropic_generateStream_def)
qed

lemma example_cut_accumulated:
  "accumulateAll (exampleAnthropic exampleCutEvents streamErr) emptyMessage exampleCutEvents
   = Inr \<lparr>message_Content = [TextBlock ''Hello''], message_StopReason = '''',
          message_Usage = \<lparr>usage_InputTokens = 0, usage_OutputTokens = 0\<rparr>\<rparr>"
  by (simp add: exampleCutEvents_def exampleAnthropic_def exampleAccumulate_def emptyMessage_def)

text \<open>
  Claim C9: when the transport reports an error, the emitted sequence is the partial
  responses of the chunks received before it, in order, followed by that error in place
  of a response, and nothing after it. Whatever the consumer does, no item of the
  sequence is a final response.
\<close>

theorem stream_error_ends_sequence:
  "(buildChatCompletionParams L m req = (Inr params, m')
      \<and> Completions_NewStreaming S params = (chunks, Some err) \<longrightarrow>
      openai_generateStream L S m req (\<lambda>out. True)
        = (partialItems (map chunkDelta chunks) @ [(None, Some err)], m')
      \<and> list_all notFinal (fst (openai_generateStream L S m req yield)))
   \<and> (buildMessageParams L am req = Inr aparams
        \<and> Messages_NewStreaming A aparams = (events, Some err) \<longrightarrow>
        list_all notFinal (anthropic_generateStream L A am req yield)
        \<and> (accumulateAll A emptyMessage events = Inr message \<longrightarrow>
             anthropic_generateStream L A am req (\<lambda>out. True)
               = partialItems (map eventDelta events) @ [(None, Some err)]))"
proof (intro conjI impI)
  assume a: "buildChatCompletionParams L m req = (Inr params, m')
      \<and> Completions_NewStreaming S params = (chunks, Some err)"
  then show "openai_generateStream L S m req (\<lambda>out. True)
        = (partialItems (map chunkDelta chunks) @ [(None, Some err)], m')"
    by (simp add: openai_generateStream_def openai_loop_all)
  from a show "list_all notFinal (fst (openai_generateStream L S m req yield))"
    using openai_stream_notFinal by blast
next
  assume a: "buildMessageParams L am req = Inr aparams
        \<and> Messages_NewStreaming A aparams = (events, Some err)"
  then show "list_all notFinal (anthropic_generateStream L A am req yield)"
    using anthropic_stream_notFinal by blast
  assume "accumulateAll A emptyMessage events = Inr message"
  with a show "anthropic_generateStream L A am req (\<lambda>out. True)
               = partialItems (map eventDelta events) @ [(None, Some err)]"
    by (simp add: anthropic_generateStream_def anthropic_loop_all)
qed

theorem stream_error_ends_sequence_witness:
  "openai_generateStream exampleLib
       (exampleOpenAI [exampleChunk ''Hel'', exampleChunk ''lo''] (Some exampleTransportError))
       (New ''gpt-4o'') (exampleRequest None) (\<lambda>out. True)
     = ([(Some (partialResponse ''Hel''), None), (Some (partialResponse ''lo''), None),
         (None, Some exampleTransportError)], New ''gpt-4o'')
   \<and> list_all notFinal
        [(Some (partialResponse ''Hel''), None), (Some (partialResponse ''lo''), None),
         (None, Some exampleTransportError)]
   \<and> anthropic_generateStream exampleLib
        (exampleAnthropic exampleCutEvents (Some exampleTransportError))
        \<lparr>a_modelName = ''claude''\<rparr> (exampleRequest None) (\<lambda>out. True)
     = [(Some (partialResponse ''Hel''), None), (Some (partialResponse ''lo''), None),
        (None, Some exampleTransportError)]"
proof -
  let ?cs = "[exampleChunk ''Hel'', exampleChunk ''lo'']"
  let ?S = "exampleOpenAI ?cs (Some exampleTransportError)"
  let ?A = "exampleAnthropic exampleCutEvents (Some exampleTransportError)"
  let ?msg = "\<lparr>message_Content = [TextBlock ''Hello''], message_StopReason = '''',
               message_Usage = \<lparr>usage_InputTokens = 0, usage_OutputTokens = 0\<rparr>\<rparr>"
  note T = stream_error_ends_sequence
             [of exampleLib "New ''gpt-4o''" "exampleRequest None" exampleChatParams
                 "New ''gpt-4o''" ?S ?cs exampleTransportError "\<lambda>out. True"
                 "\<lparr>a_modelName = ''claude''\<rparr>" "exampleParams 4096" ?A exampleCutEvents ?msg]
  have h1: "buildChatCompletionParams exampleLib (New ''gpt-4o'') (exampleRequest None)
              = (Inr exampleChatParams, New ''gpt-4o'')
            \<and> Completions_NewStreaming ?S exampleChatParams = (?cs, Some exampleTransportError)"
    by (simp add: example_chat_build exampleOpenAI_def)
  have h2: "buildMessageParams exampleLib \<lparr>a_modelName = ''claude''\<rparr> (exampleRequest None)
              = Inr (exampleParams 4096)
            \<and> Messages_NewStreaming ?A (exampleParams 4096)
                = (exampleCutEvents, Some exampleTransportError)"
    by (simp add: example_build) (simp add: exampleAnthropic_def)
  have h3: "accumulateAll ?A emptyMessage exampleCutEvents = Inr ?msg"
    by (rule example_cut_accumulated)
  have d1: "partialItems (map chunkDelta ?cs)
            = [(Some (partialResponse ''Hel''), None), (Some (partialResponse ''lo''), None)]"
    by (simp add: exampleChunk_def chunkDelta_def partialItems_def)
  have d2: "partialItems (map eventDelta exampleCutEvents)
            = [(Some (partialResponse ''Hel''), None), (Some (partialResponse ''lo''), None)]"
    by (simp add: exampleCutEvents_def eventDelta_simps partialItems_def)
  have o: "openai_generateStream exampleLib ?S (New ''gpt-4o'') (exampleRequest None) (\<lambda>out. True)
     = ([(Some (partialResponse ''Hel''), None), (Some (partialResponse ''lo''), None),
         (None, Some exampleTransportError)], New ''gpt-4o'')"
    using T h1 unfolding d1 by simp
  have n: "list_all notFinal
        [(Some (partialResponse ''Hel''), None), (Some (partialResponse ''lo''), None),
         (None, Some exampleTransportError)]"
    using T h1 unfolding o by simp
  have a: "anthropic_generateStream exampleLib ?A \<lparr>a_modelName = ''claude''\<rparr>
             (exampleRequest None) (\<lambda>out. True)
     = [(Some (partialResponse ''Hel''), None), (Some (partialResponse ''lo''), None),
        (None, Some exampleTransportError)]"
    using T h2 h3 unfolding d2 by simp
  from o n a show ?thesis by blast
qed

end
